theory Spec2Isabelle
  imports Main
begin

section \<open>Data model\<close>

text \<open>
  The repository holds two Streamlit scripts: \<^verbatim>\<open>app.py\<close> (conversation kept in the
  browser session only) and \<^verbatim>\<open>app_1.py\<close> (every message mirrored to a MongoDB
  collection and reloaded at session start). Streamlit re-executes the whole script from
  top to bottom on every interaction; only \<^verbatim>\<open>st.session_state\<close> and the database
  survive from one execution to the next. One execution of a script is modelled as a
  function from the surviving state and the answers of the outside world to the new state
  and the trace of outward effects.

  A Python \<^verbatim>\<open>str\<close> is modelled as a \<^typ>\<open>string\<close> in which every element stands
  for one code point (code points above 255 are not represented), so that \<^const>\<open>length\<close>
  is Python's \<^verbatim>\<open>len\<close>.
\<close>

type_synonym timestamp = int

text \<open>An entry of \<^verbatim>\<open>st.session_state.messages\<close>: the dict literal
  \<^verbatim>\<open>{"role": ..., "content": ...}\<close>.\<close>

record message =
  role :: string
  content :: string

text \<open>A document of the \<^verbatim>\<open>conversations\<close> collection, as \<^verbatim>\<open>save_message\<close>
  writes it.\<close>

record document =
  doc_session_id :: string
  doc_role :: string
  doc_content :: string
  token_usage :: "int option"
  created_at :: timestamp

text \<open>
  What \<^verbatim>\<open>openai.ChatCompletion.create\<close> does when called inside the \<^verbatim>\<open>try\<close>
  block: it returns a response, of which the script reads the content of the first choice
  and the total token count, or an exception leaves the block. The three
  \<^verbatim>\<open>except\<close> clauses distinguish \<^verbatim>\<open>RateLimitError\<close>, \<^verbatim>\<open>Timeout\<close> and
  everything else.
\<close>

datatype completion =
    ChatCompletion string int
  | RateLimitError
  | Timeout
  | OtherException

text \<open>The keys of \<^verbatim>\<open>st.session_state\<close> the scripts use; \<open>None\<close> is an absent key.\<close>

record session_state =
  messages :: "message list option"
  session_id :: "string option"
  conversation_start_time :: "timestamp option"

text \<open>Outward effects of one execution, in the order in which the script performs them.\<close>

datatype event =
    Title
  | Caption
  | Error string
  | ChatMessage string string
  | Find string
  | InsertOne document
  | ChatCompletionCreate "message list"
  | Divider
  | Warning

text \<open>
  What the \<^verbatim>\<open>try\<close> block of the connection section does (\<^verbatim>\<open>MongoClient(...)\<close>
  and \<^verbatim>\<open>create_index\<close>): it succeeds, it raises \<^verbatim>\<open>ConnectionFailure\<close> (which the
  \<^verbatim>\<open>except\<close> clause catches), or it raises an exception of another class (an invalid
  URI, a configuration error, a refused operation), which no clause catches.
\<close>

datatype mongo_outcome =
    Connected
  | ConnectionFailure
  | OtherMongoError

text \<open>
  The answers of the outside world during one execution: the secrets (\<open>None\<close> when no
  secrets file can be loaded: every access to \<^verbatim>\<open>st.secrets\<close>, the membership test
  included, then raises), the text submitted in the chat box (\<open>None\<close> when nothing was
  submitted), the completion endpoint, the system clock (\<open>utcnow e k\<close> is the \<open>k\<close>-th
  reading of \<^verbatim>\<open>datetime.utcnow()\<close> in this execution, counted from 0), the identifier
  \<^verbatim>\<open>uuid.uuid4()\<close> would produce, and the outcome of the connection section.
\<close>

record env =
  st_secrets :: "(string \<rightharpoonup> string) option"
  chat_input :: "string option"
  openai_create :: "message list \<Rightarrow> completion"
  utcnow :: "nat \<Rightarrow> timestamp"
  uuid4 :: string
  mongo :: mongo_outcome

text \<open>The secrets that are present: none when no secrets file can be loaded.\<close>

definition secrets :: "env \<Rightarrow> string \<rightharpoonup> string" where
  "secrets e = (case st_secrets e of None \<Rightarrow> Map.empty | Some sec \<Rightarrow> sec)"

text \<open>The connection section ran through without an exception.\<close>

definition mongo_reachable :: "env \<Rightarrow> bool" where
  "mongo_reachable e \<longleftrightarrow> mongo e = Connected"

text \<open>
  Result of executing \<^verbatim>\<open>app.py\<close> once. \<open>stopped\<close> records that the execution ended
  before the end of the script; \<open>raised\<close> records that it ended so by an exception that
  nothing caught, and not by \<^verbatim>\<open>st.stop()\<close>.
\<close>

record outcome =
  session :: session_state
  trace :: "event list"
  stopped :: bool
  raised :: bool

text \<open>Result of executing \<^verbatim>\<open>app_1.py\<close> once: additionally the collection.\<close>

record outcome_1 = outcome +
  collection :: "document list"

section \<open>Constants\<close>

definition MAX_MESSAGES :: nat where
  "MAX_MESSAGES = 20"

definition newline :: string where
  "newline = [CHR 0x0A]"

text \<open>The triple-quoted prompt of \<^verbatim>\<open>app.py\<close>.\<close>

definition SYSTEM_PROMPT :: string where
  "SYSTEM_PROMPT =
     newline @
     ''You are a medical assistant chatbot for educational purposes only.'' @ newline @
     newline @
     ''You have access to previous messages in this session.'' @ newline @
     ''Use them for consistency.'' @ newline @
     newline @
     ''Strict rules:'' @ newline @
     ''- Provide general medical education only.'' @ newline @
     ''- Do NOT diagnose medical conditions.'' @ newline @
     ''- Do NOT prescribe medications or provide dosages.'' @ newline @
     ''- Do NOT replace professional medical consultation.'' @ newline @
     ''- Always mention warning signs requiring urgent care.'' @ newline @
     ''- Encourage consulting a licensed healthcare professional.'' @ newline @
     ''- Be calm, empathetic, and professional.'' @ newline"

text \<open>The prompt of \<^verbatim>\<open>app_1.py\<close>.\<close>

definition SYSTEM_PROMPT_1 :: string where
  "SYSTEM_PROMPT_1 = ''You are a helpful assistant.''"

section \<open>Python primitives\<close>

text \<open>\<^verbatim>\<open>str.isspace\<close> on one code point below 256: the ASCII controls 9 to 13 and 28 to 31,
  the space, NEL (133) and the no-break space (160).\<close>

definition isspace :: "char \<Rightarrow> bool" where
  "isspace c =
     (let n = (of_char c :: nat)
      in (9 \<le> n \<and> n \<le> 13) \<or> (28 \<le> n \<and> n \<le> 32) \<or> n = 133 \<or> n = 160)"

text \<open>\<^verbatim>\<open>s.strip()\<close>: leading and trailing whitespace removed.\<close>

definition strip :: "string \<Rightarrow> string" where
  "strip s = rev (dropWhile isspace (rev (dropWhile isspace s)))"

text \<open>Truth value of an optional string in an \<^verbatim>\<open>if\<close>: \<^verbatim>\<open>None\<close> and the empty string
  are false.\<close>

fun truthy :: "string option \<Rightarrow> bool" where
  "truthy None = False"
| "truthy (Some s) = (s \<noteq> [])"

text \<open>The slice \<^verbatim>\<open>xs[-n:]\<close> for \<open>n \<ge> 0\<close>: the last \<open>n\<close> elements, the whole list when it
  is shorter, and the whole list for \<open>n = 0\<close> (\<^verbatim>\<open>xs[-0:]\<close> is \<^verbatim>\<open>xs[0:]\<close>).\<close>

definition slice_last :: "nat \<Rightarrow> 'a list \<Rightarrow> 'a list" where
  "slice_last n xs = (if n = 0 then xs else drop (length xs - n) xs)"

section \<open>Helper functions of the scripts\<close>

text \<open>
  \<^verbatim>\<open>build_messages\<close> and \<^verbatim>\<open>trim_history\<close> are the same in both scripts up to the
  prompt constant. They read the global \<^verbatim>\<open>st.session_state.messages\<close>, which is passed
  explicitly; \<^verbatim>\<open>trim_history\<close> assigns to it, so it returns the new value.
\<close>

definition build_messages :: "string \<Rightarrow> message list \<Rightarrow> message list" where
  "build_messages prompt ms = [\<lparr>role = ''system'', content = prompt\<rparr>] @ ms"

definition trim_history :: "message list \<Rightarrow> message list" where
  "trim_history ms = (if length ms > MAX_MESSAGES then slice_last MAX_MESSAGES ms else ms)"

text \<open>\<^verbatim>\<open>generate_ai_response\<close> of \<^verbatim>\<open>app.py\<close>: the reply (or \<^verbatim>\<open>None\<close>) and the effects.\<close>

definition generate_ai_response ::
  "(message list \<Rightarrow> completion) \<Rightarrow> message list \<Rightarrow> string option \<times> event list" where
  "generate_ai_response create msgs =
     (case create msgs of
        ChatCompletion c t \<Rightarrow> (Some (strip c), [ChatCompletionCreate msgs])
      | RateLimitError \<Rightarrow>
          (None, [ChatCompletionCreate msgs,
                  Error ''Too many requests. Please wait a moment and try again.''])
      | Timeout \<Rightarrow>
          (None, [ChatCompletionCreate msgs,
                  Error ''Request timed out. Please try again.''])
      | OtherException \<Rightarrow>
          (None, [ChatCompletionCreate msgs,
                  Error ''AI service temporarily unavailable.'']))"

text \<open>\<^verbatim>\<open>generate_response\<close> of \<^verbatim>\<open>app_1.py\<close>: the pair of reply and token count.\<close>

definition generate_response ::
  "(message list \<Rightarrow> completion) \<Rightarrow> message list
     \<Rightarrow> (string option \<times> int option) \<times> event list" where
  "generate_response create msgs =
     (case create msgs of
        ChatCompletion c t \<Rightarrow> ((Some (strip c), Some t), [ChatCompletionCreate msgs])
      | RateLimitError \<Rightarrow>
          ((None, None), [ChatCompletionCreate msgs,
                          Error ''Too many requests. Please try again shortly.''])
      | Timeout \<Rightarrow>
          ((None, None), [ChatCompletionCreate msgs,
                          Error ''Request timed out. Please try again.''])
      | OtherException \<Rightarrow>
          ((None, None), [ChatCompletionCreate msgs,
                          Error ''AI service temporarily unavailable.'']))"

text \<open>The document \<^verbatim>\<open>save_message\<close> builds, with the session identifier and the clock
  reading made explicit, and its insertion at the end of the collection.\<close>

definition new_document ::
  "string \<Rightarrow> timestamp \<Rightarrow> string \<Rightarrow> string \<Rightarrow> int option \<Rightarrow> document" where
  "new_document sid now r c tu =
     \<lparr>doc_session_id = sid, doc_role = r, doc_content = c, token_usage = tu, created_at = now\<rparr>"

definition save_message ::
  "string \<Rightarrow> timestamp \<Rightarrow> string \<Rightarrow> string \<Rightarrow> int option \<Rightarrow> document list
     \<Rightarrow> document list" where
  "save_message sid now r c tu coll = coll @ [new_document sid now r c tu]"

text \<open>
  \<^verbatim>\<open>conversations_collection.find({"session_id": sid}).sort("created_at", 1)\<close>: the
  documents of the session, ascending by creation time. The sort has no second key, and
  MongoDB leaves the order of documents with equal creation times open. What the query may
  return is therefore described by a relation: any list that holds the documents of the
  session, each as often as the collection holds it, in ascending order of creation time.
\<close>

definition same_documents :: "document list \<Rightarrow> document list \<Rightarrow> bool" where
  "same_documents xs ys \<longleftrightarrow> list_all (\<lambda>d. count_list xs d = count_list ys d) (xs @ ys)"

definition find_sort_result :: "string \<Rightarrow> document list \<Rightarrow> document list \<Rightarrow> bool" where
  "find_sort_result sid coll res \<longleftrightarrow>
     sorted (map created_at res) \<and>
     same_documents res (filter (\<lambda>d. doc_session_id d = sid) coll)"

text \<open>
  One such result, used where the script is executed: documents with equal creation times
  in insertion order. Statements about the position of a document among others of the same
  creation time are made with \<^const>\<open>find_sort_result\<close>, not with this function.
\<close>

definition find_sorted :: "string \<Rightarrow> document list \<Rightarrow> document list" where
  "find_sorted sid coll = sort_key created_at (filter (\<lambda>d. doc_session_id d = sid) coll)"

text \<open>The list comprehension of the session-management section.\<close>

definition load_messages :: "string \<Rightarrow> document list \<Rightarrow> message list" where
  "load_messages sid coll =
     map (\<lambda>msg. \<lparr>role = doc_role msg, content = doc_content msg\<rparr>) (find_sorted sid coll)"

text \<open>The loops that display the chat history.\<close>

definition display_history :: "message list \<Rightarrow> event list" where
  "display_history ms = map (\<lambda>msg. ChatMessage (role msg) (content msg)) ms"

text \<open>The footer both scripts end with.\<close>

definition footer :: "event list" where
  "footer = [Divider, Warning]"

section \<open>The script app.py\<close>

text \<open>
  The block under \<^verbatim>\<open>if user_input:\<close> for a non-empty input \<open>inp\<close> and the buffer
  \<open>ms\<close>: the new buffer, the effects, and whether \<^verbatim>\<open>st.stop()\<close> was called.
\<close>

definition app_turn ::
  "env \<Rightarrow> string \<Rightarrow> message list \<Rightarrow> message list \<times> event list \<times> bool" where
  "app_turn e inp ms =
     (if length inp > 2000 then
        (ms, [Error ''Input too long. Please shorten your message.''], True)
      else
        let ms1 = ms @ [\<lparr>role = ''user'', content = inp\<rparr>];
            (ai_reply, evs) = generate_ai_response (openai_create e) (build_messages SYSTEM_PROMPT ms1)
        in if truthy ai_reply then
             (case ai_reply of
                Some r \<Rightarrow>
                  (trim_history (ms1 @ [\<lparr>role = ''assistant'', content = r\<rparr>]),
                   [ChatMessage ''user'' inp] @ evs @ [ChatMessage ''assistant'' r], False)
              | None \<Rightarrow> (trim_history ms1, [ChatMessage ''user'' inp] @ evs, False))
           else (trim_history ms1, [ChatMessage ''user'' inp] @ evs, False))"

text \<open>
  The whole script. The membership test on \<^verbatim>\<open>st.secrets\<close> raises when no secrets can be
  loaded, and nothing catches that; otherwise a missing key leads to \<^verbatim>\<open>st.error\<close> and
  \<^verbatim>\<open>st.stop()\<close>.
\<close>

definition app :: "env \<Rightarrow> session_state \<Rightarrow> outcome" where
  "app e s =
     (if st_secrets e = None then
        \<lparr>session = s, trace = [], stopped = True, raised = True\<rparr>
      else if secrets e ''OPENAI_API_KEY'' = None then
        \<lparr>session = s, trace = [Error ''OpenAI API key not configured.''], stopped = True, raised = False\<rparr>
      else
        let ms = (case messages s of None \<Rightarrow> [] | Some m \<Rightarrow> m);
            t0 = (case conversation_start_time s of None \<Rightarrow> utcnow e 0 | Some t \<Rightarrow> t);
            s1 = s\<lparr>messages := Some ms, conversation_start_time := Some t0\<rparr>;
            tr = [Title, Caption] @ display_history ms
        in if truthy (chat_input e) then
             (case chat_input e of
                Some inp \<Rightarrow>
                  (let (ms', evs, halt) = app_turn e inp ms
                   in \<lparr>session = s1\<lparr>messages := Some ms'\<rparr>,
                       trace = tr @ evs @ (if halt then [] else footer),
                       stopped = halt, raised = False\<rparr>)
              | None \<Rightarrow> \<lparr>session = s1, trace = tr @ footer, stopped = False, raised = False\<rparr>)
           else \<lparr>session = s1, trace = tr @ footer, stopped = False, raised = False\<rparr>)"

section \<open>The script app_1.py\<close>

text \<open>The loop over \<^verbatim>\<open>required_secrets\<close>: the first secret that is missing, if any.\<close>

fun missing_secret :: "(string \<rightharpoonup> string) \<Rightarrow> string list \<Rightarrow> string option" where
  "missing_secret sec [] = None"
| "missing_secret sec (k # ks) = (if sec k = None then Some k else missing_secret sec ks)"

definition required_secrets :: "string list" where
  "required_secrets = [''OPENAI_API_KEY'', ''MONGODB_URI'']"

text \<open>
  The block under \<^verbatim>\<open>if user_input:\<close> for a non-empty input \<open>inp\<close>, the session
  identifier \<open>sid\<close>, the buffer \<open>ms\<close> and the collection \<open>coll\<close>.
\<close>

definition app_1_turn ::
  "env \<Rightarrow> string \<Rightarrow> string \<Rightarrow> message list \<Rightarrow> document list
     \<Rightarrow> message list \<times> document list \<times> event list \<times> bool" where
  "app_1_turn e sid inp ms coll =
     (if length inp > 2000 then
        (ms, coll, [Error ''Input too long. Please shorten your message.''], True)
      else
        let ms1 = ms @ [\<lparr>role = ''user'', content = inp\<rparr>];
            coll1 = save_message sid (utcnow e 0) ''user'' inp None coll;
            ev1 = [InsertOne (new_document sid (utcnow e 0) ''user'' inp None),
                   ChatMessage ''user'' inp];
            ((reply, tokens), evs) =
               generate_response (openai_create e) (build_messages SYSTEM_PROMPT_1 ms1)
        in if truthy reply then
             (case reply of
                Some r \<Rightarrow>
                  (trim_history (ms1 @ [\<lparr>role = ''assistant'', content = r\<rparr>]),
                   save_message sid (utcnow e 1) ''assistant'' r tokens coll1,
                   ev1 @ evs @ [InsertOne (new_document sid (utcnow e 1) ''assistant'' r tokens),
                                ChatMessage ''assistant'' r],
                   False)
              | None \<Rightarrow> (trim_history ms1, coll1, ev1 @ evs, False))
           else (trim_history ms1, coll1, ev1 @ evs, False))"

text \<open>
  The whole script. The first membership test on \<^verbatim>\<open>st.secrets\<close> raises when no secrets
  can be loaded; otherwise the first missing key leads to \<^verbatim>\<open>st.error\<close> and
  \<^verbatim>\<open>st.stop()\<close>. In the connection section a \<^verbatim>\<open>ConnectionFailure\<close> leads to
  \<^verbatim>\<open>st.error\<close> and \<^verbatim>\<open>st.stop()\<close>, and an exception of another class ends the
  execution uncaught.
\<close>

definition app_1 :: "env \<Rightarrow> session_state \<Rightarrow> document list \<Rightarrow> outcome_1" where
  "app_1 e s coll =
     (if st_secrets e = None then
        \<lparr>session = s, trace = [], stopped = True, raised = True, collection = coll\<rparr>
      else
      case missing_secret (secrets e) required_secrets of
        Some k \<Rightarrow>
          \<lparr>session = s, trace = [Error (''Missing required secret: '' @ k)], stopped = True, raised = False,
           collection = coll\<rparr>
      | None \<Rightarrow>
          if mongo e = ConnectionFailure then
            \<lparr>session = s, trace = [Error ''Database connection failed.''], stopped = True, raised = False,
             collection = coll\<rparr>
          else if mongo e = OtherMongoError then
            \<lparr>session = s, trace = [], stopped = True, raised = True, collection = coll\<rparr>
          else
            let sid = (case session_id s of None \<Rightarrow> uuid4 e | Some i \<Rightarrow> i);
                (ms, ev0) = (case messages s of
                               None \<Rightarrow> (load_messages sid coll, [Find sid])
                             | Some m \<Rightarrow> (m, []));
                s1 = s\<lparr>session_id := Some sid, messages := Some ms\<rparr>;
                tr = [Title, Caption] @ ev0 @ display_history ms
            in if truthy (chat_input e) then
                 (case chat_input e of
                    Some inp \<Rightarrow>
                      (let (ms', coll', evs, halt) = app_1_turn e sid inp ms coll
                       in \<lparr>session = s1\<lparr>messages := Some ms'\<rparr>,
                           trace = tr @ evs @ (if halt then [] else footer),
                           stopped = halt, raised = False, collection = coll'\<rparr>)
                  | None \<Rightarrow>
                      \<lparr>session = s1, trace = tr @ footer, stopped = False, raised = False, collection = coll\<rparr>)
               else \<lparr>session = s1, trace = tr @ footer, stopped = False, raised = False, collection = coll\<rparr>)"

text \<open>Streamlit runs the script again on every interaction: a sequence of executions of
  \<^verbatim>\<open>app_1.py\<close>, each starting from the session state and the collection the previous
  one left.\<close>

fun app_1_reruns :: "env list \<Rightarrow> session_state \<Rightarrow> document list \<Rightarrow> session_state \<times> document list" where
  "app_1_reruns [] s coll = (s, coll)"
| "app_1_reruns (e # es) s coll =
     app_1_reruns es (session (app_1 e s coll)) (collection (app_1 e s coll))"

section \<open>Observations on states and traces\<close>

text \<open>The conversation buffer of a session state: empty while the key is absent.\<close>

definition buffer :: "session_state \<Rightarrow> message list" where
  "buffer s = (case messages s of None \<Rightarrow> [] | Some m \<Rightarrow> m)"

text \<open>The texts of the \<^verbatim>\<open>st.error\<close> calls of a trace, the requests sent to the
  completion endpoint, and the documents inserted, each in order.\<close>

definition error_texts :: "event list \<Rightarrow> string list" where
  "error_texts tr = concat (map (\<lambda>ev. case ev of Error t \<Rightarrow> [t] | _ \<Rightarrow> []) tr)"

definition requests :: "event list \<Rightarrow> message list list" where
  "requests tr = concat (map (\<lambda>ev. case ev of ChatCompletionCreate r \<Rightarrow> [r] | _ \<Rightarrow> []) tr)"

definition inserts :: "event list \<Rightarrow> document list" where
  "inserts tr = concat (map (\<lambda>ev. case ev of InsertOne d \<Rightarrow> [d] | _ \<Rightarrow> []) tr)"

text \<open>The chat bubbles a trace displays, as pairs of role and text.\<close>

definition chat_messages :: "event list \<Rightarrow> (string \<times> string) list" where
  "chat_messages tr = concat (map (\<lambda>ev. case ev of ChatMessage r c \<Rightarrow> [(r, c)] | _ \<Rightarrow> []) tr)"

text \<open>The session identifier an execution of \<^verbatim>\<open>app_1.py\<close> works with.\<close>

definition current_session_id :: "env \<Rightarrow> session_state \<Rightarrow> string" where
  "current_session_id e s = (case session_id s of None \<Rightarrow> uuid4 e | Some i \<Rightarrow> i)"

text \<open>The buffer \<^verbatim>\<open>app_1.py\<close> holds after its session-management section.\<close>

definition initial_buffer :: "env \<Rightarrow> session_state \<Rightarrow> document list \<Rightarrow> message list" where
  "initial_buffer e s coll =
     (case messages s of None \<Rightarrow> load_messages (current_session_id e s) coll | Some m \<Rightarrow> m)"

section \<open>Example data\<close>

definition demo_secrets :: "string \<rightharpoonup> string" where
  "demo_secrets = [''OPENAI_API_KEY'' \<mapsto> ''sk-demo'', ''MONGODB_URI'' \<mapsto> ''mongodb://demo'']"

definition demo_env :: "string option \<Rightarrow> completion \<Rightarrow> env" where
  "demo_env inp answer =
     \<lparr>st_secrets = Some demo_secrets, chat_input = inp, openai_create = (\<lambda>_. answer),
      utcnow = (\<lambda>k. 1000 + int k), uuid4 = ''session-a'', mongo = Connected\<rparr>"

definition fresh_session :: session_state where
  "fresh_session = \<lparr>messages = None, session_id = None, conversation_start_time = None\<rparr>"

definition numbered_message :: "nat \<Rightarrow> message" where
  "numbered_message n = \<lparr>role = ''user'', content = replicate n CHR ''x''\<rparr>"

definition numbered_document :: "string \<Rightarrow> nat \<Rightarrow> document" where
  "numbered_document sid n =
     \<lparr>doc_session_id = sid, doc_role = ''user'', doc_content = replicate n CHR ''x'',
      token_usage = None, created_at = int n\<rparr>"

definition long_history :: "message list" where
  "long_history = map numbered_message [0..<25]"

definition long_collection :: "document list" where
  "long_collection = map (numbered_document ''session-a'') [0..<25]"

definition session_with :: "message list \<Rightarrow> session_state" where
  "session_with ms =
     \<lparr>messages = Some ms, session_id = Some ''session-a'', conversation_start_time = Some 0\<rparr>"

definition demo_env_without :: "string \<Rightarrow> env" where
  "demo_env_without k =
     (demo_env (Some ''hello'') (ChatCompletion ''ok'' 3))\<lparr>st_secrets := Some (demo_secrets(k := None))\<rparr>"

definition demo_env_offline :: env where
  "demo_env_offline =
     (demo_env (Some ''hello'') (ChatCompletion ''ok'' 3))\<lparr>mongo := ConnectionFailure\<rparr>"

definition demo_env_no_secrets :: env where
  "demo_env_no_secrets =
     (demo_env (Some ''hello'') (ChatCompletion ''ok'' 3))\<lparr>st_secrets := None\<rparr>"

definition demo_env_bad_uri :: env where
  "demo_env_bad_uri =
     (demo_env (Some ''hello'') (ChatCompletion ''ok'' 3))\<lparr>mongo := OtherMongoError\<rparr>"

definition tie_document :: document where
  "tie_document = new_document ''session-a'' 1000 ''user'' ''earlier'' None"

definition long_input :: string where
  "long_input = replicate 2001 CHR ''x''"

definition blank_reply :: string where
  "blank_reply = [CHR '' '', CHR 0x0A, CHR 0x09]"

definition returning_session :: session_state where
  "returning_session =
     \<lparr>messages = None, session_id = Some ''session-a'', conversation_start_time = None\<rparr>"

definition later_document :: document where
  "later_document = new_document ''session-a'' 5000 ''user'' ''earlier'' None"

section \<open>Basic facts\<close>


lemma trim_history_le: "length (trim_history ms) \<le> MAX_MESSAGES"
  by (simp add: trim_history_def slice_last_def MAX_MESSAGES_def)

lemma error_texts_simps [simp]:
  "error_texts [] = []"
  "error_texts (Error t # tr) = t # error_texts tr"
  "error_texts (Title # tr) = error_texts tr"
  "error_texts (Caption # tr) = error_texts tr"
  "error_texts (ChatMessage r c # tr) = error_texts tr"
  "error_texts (Find i # tr) = error_texts tr"
  "error_texts (InsertOne d # tr) = error_texts tr"
  "error_texts (ChatCompletionCreate q # tr) = error_texts tr"
  "error_texts (Divider # tr) = error_texts tr"
  "error_texts (Warning # tr) = error_texts tr"
  "error_texts (tr @ tr') = error_texts tr @ error_texts tr'"
  by (simp_all add: error_texts_def)

lemma requests_simps [simp]:
  "requests [] = []"
  "requests (Error t # tr) = requests tr"
  "requests (Title # tr) = requests tr"
  "requests (Caption # tr) = requests tr"
  "requests (ChatMessage r c # tr) = requests tr"
  "requests (Find i # tr) = requests tr"
  "requests (InsertOne d # tr) = requests tr"
  "requests (ChatCompletionCreate q # tr) = q # requests tr"
  "requests (Divider # tr) = requests tr"
  "requests (Warning # tr) = requests tr"
  "requests (tr @ tr') = requests tr @ requests tr'"
  by (simp_all add: requests_def)

lemma inserts_simps [simp]:
  "inserts [] = []"
  "inserts (Error t # tr) = inserts tr"
  "inserts (Title # tr) = inserts tr"
  "inserts (Caption # tr) = inserts tr"
  "inserts (ChatMessage r c # tr) = inserts tr"
  "inserts (Find i # tr) = inserts tr"
  "inserts (InsertOne d # tr) = d # inserts tr"
  "inserts (ChatCompletionCreate q # tr) = inserts tr"
  "inserts (Divider # tr) = inserts tr"
  "inserts (Warning # tr) = inserts tr"
  "inserts (tr @ tr') = inserts tr @ inserts tr'"
  by (simp_all add: inserts_def)

lemma chat_messages_simps [simp]:
  "chat_messages [] = []"
  "chat_messages (Error t # tr) = chat_messages tr"
  "chat_messages (Title # tr) = chat_messages tr"
  "chat_messages (Caption # tr) = chat_messages tr"
  "chat_messages (ChatMessage r c # tr) = (r, c) # chat_messages tr"
  "chat_messages (Find i # tr) = chat_messages tr"
  "chat_messages (InsertOne d # tr) = chat_messages tr"
  "chat_messages (ChatCompletionCreate q # tr) = chat_messages tr"
  "chat_messages (Divider # tr) = chat_messages tr"
  "chat_messages (Warning # tr) = chat_messages tr"
  "chat_messages (tr @ tr') = chat_messages tr @ chat_messages tr'"
  by (simp_all add: chat_messages_def)

lemma display_history_obs [simp]:
  "error_texts (display_history ms) = []"
  "requests (display_history ms) = []"
  "inserts (display_history ms) = []"
  "chat_messages (display_history ms) = map (\<lambda>m. (role m, content m)) ms"
  by (induction ms) (simp_all add: display_history_def)

lemma footer_obs [simp]:
  "error_texts footer = []" "requests footer = []" "inserts footer = []" "chat_messages footer = []"
  by (simp_all add: footer_def)

lemma strip_eq_Nil: "strip c = [] \<longleftrightarrow> (\<forall>ch \<in> set c. isspace ch)"
proof -
  have "strip c = [] \<longleftrightarrow> (\<forall>ch \<in> set (dropWhile isspace c). isspace ch)"
    by (simp add: strip_def)
  also have "\<dots> \<longleftrightarrow> dropWhile isspace c = []"
  proof
    assume a: "\<forall>ch \<in> set (dropWhile isspace c). isspace ch"
    show "dropWhile isspace c = []"
    proof (rule ccontr)
      assume "dropWhile isspace c \<noteq> []"
      then have "\<not> isspace (hd (dropWhile isspace c))" "hd (dropWhile isspace c) \<in> set (dropWhile isspace c)"
        by (simp_all add: hd_dropWhile)
      with a show False by blast
    qed
  qed (auto dest: set_dropWhileD)
  also have "\<dots> \<longleftrightarrow> (\<forall>ch \<in> set c. isspace ch)"
    by simp
  finally show ?thesis .
qed

subsection \<open>Secrets and the connection\<close>

lemma secrets_present: "secrets e k \<noteq> None \<Longrightarrow> st_secrets e \<noteq> None"
  by (auto simp: secrets_def split: option.splits)

lemma secrets_no_file [simp]: "st_secrets e = None \<Longrightarrow> secrets e k = None"
  by (simp add: secrets_def)

lemma secrets_openai_create_update [simp]:
  "secrets (e\<lparr>openai_create := f\<rparr>) = secrets e"
  "mongo_reachable (e\<lparr>openai_create := f\<rparr>) = mongo_reachable e"
  by (simp_all add: secrets_def mongo_reachable_def)

lemma mongo_reachable_simps [simp]:
  "mongo_reachable e \<Longrightarrow> mongo e \<noteq> ConnectionFailure"
  "mongo_reachable e \<Longrightarrow> mongo e \<noteq> OtherMongoError"
  by (simp_all add: mongo_reachable_def)

subsection \<open>Executions of app.py, case by case\<close>

lemma app_turn_too_long:
  "length inp > 2000 \<Longrightarrow>
   app_turn e inp ms = (ms, [Error ''Input too long. Please shorten your message.''], True)"
  by (simp add: app_turn_def)

lemma app_turn_failure:
  assumes "length inp \<le> 2000"
    and "\<forall>c t. openai_create e (build_messages SYSTEM_PROMPT (ms @ [\<lparr>role = ''user'', content = inp\<rparr>])) \<noteq> ChatCompletion c t"
  shows "app_turn e inp ms =
     (trim_history (ms @ [\<lparr>role = ''user'', content = inp\<rparr>]),
      [ChatMessage ''user'' inp,
       ChatCompletionCreate (build_messages SYSTEM_PROMPT (ms @ [\<lparr>role = ''user'', content = inp\<rparr>])),
       Error (case openai_create e (build_messages SYSTEM_PROMPT (ms @ [\<lparr>role = ''user'', content = inp\<rparr>])) of
                RateLimitError \<Rightarrow> ''Too many requests. Please wait a moment and try again.''
              | Timeout \<Rightarrow> ''Request timed out. Please try again.''
              | _ \<Rightarrow> ''AI service temporarily unavailable.'')],
      False)"
  using assms
  by (cases "openai_create e (build_messages SYSTEM_PROMPT (ms @ [\<lparr>role = ''user'', content = inp\<rparr>]))")
     (simp_all add: app_turn_def generate_ai_response_def Let_def)

lemma app_turn_blank:
  assumes "length inp \<le> 2000"
    and "openai_create e (build_messages SYSTEM_PROMPT (ms @ [\<lparr>role = ''user'', content = inp\<rparr>])) = ChatCompletion c t"
    and "strip c = []"
  shows "app_turn e inp ms =
     (trim_history (ms @ [\<lparr>role = ''user'', content = inp\<rparr>]),
      [ChatMessage ''user'' inp,
       ChatCompletionCreate (build_messages SYSTEM_PROMPT (ms @ [\<lparr>role = ''user'', content = inp\<rparr>]))],
      False)"
  using assms by (simp add: app_turn_def generate_ai_response_def Let_def)

lemma app_turn_reply:
  assumes "length inp \<le> 2000"
    and "openai_create e (build_messages SYSTEM_PROMPT (ms @ [\<lparr>role = ''user'', content = inp\<rparr>])) = ChatCompletion c t"
    and "strip c \<noteq> []"
  shows "app_turn e inp ms =
     (trim_history (ms @ [\<lparr>role = ''user'', content = inp\<rparr>, \<lparr>role = ''assistant'', content = strip c\<rparr>]),
      [ChatMessage ''user'' inp,
       ChatCompletionCreate (build_messages SYSTEM_PROMPT (ms @ [\<lparr>role = ''user'', content = inp\<rparr>])),
       ChatMessage ''assistant'' (strip c)],
      False)"
  using assms by (simp add: app_turn_def generate_ai_response_def Let_def)

lemma app_no_secrets_file:
  "st_secrets e = None \<Longrightarrow>
   app e s = \<lparr>session = s, trace = [], stopped = True, raised = True\<rparr>"
  by (simp add: app_def)

lemma app_no_key:
  "st_secrets e \<noteq> None \<Longrightarrow> secrets e ''OPENAI_API_KEY'' = None \<Longrightarrow>
   app e s = \<lparr>session = s, trace = [Error ''OpenAI API key not configured.''], stopped = True,
              raised = False\<rparr>"
  by (simp add: app_def)

lemma app_start_up_failure:
  "secrets e ''OPENAI_API_KEY'' = None \<Longrightarrow>
   app e s =
     \<lparr>session = s,
      trace = (if st_secrets e = None then [] else [Error ''OpenAI API key not configured.'']),
      stopped = True, raised = (st_secrets e = None)\<rparr>"
  by (simp add: app_def)

lemma app_idle:
  "secrets e ''OPENAI_API_KEY'' \<noteq> None \<Longrightarrow> \<not> truthy (chat_input e) \<Longrightarrow>
   app e s =
     \<lparr>session = s\<lparr>messages := Some (buffer s),
                  conversation_start_time :=
                    Some (case conversation_start_time s of None \<Rightarrow> utcnow e 0 | Some t \<Rightarrow> t)\<rparr>,
      trace = [Title, Caption] @ display_history (buffer s) @ footer, stopped = False, raised = False\<rparr>"
  using secrets_present [of e "''OPENAI_API_KEY''"] by (simp add: app_def buffer_def Let_def)

lemma app_input:
  "secrets e ''OPENAI_API_KEY'' \<noteq> None \<Longrightarrow> chat_input e = Some inp \<Longrightarrow> inp \<noteq> [] \<Longrightarrow>
   app_turn e inp (buffer s) = (ms', evs, halt) \<Longrightarrow>
   app e s =
     \<lparr>session = s\<lparr>messages := Some ms',
                  conversation_start_time :=
                    Some (case conversation_start_time s of None \<Rightarrow> utcnow e 0 | Some t \<Rightarrow> t)\<rparr>,
      trace = [Title, Caption] @ display_history (buffer s) @ evs @ (if halt then [] else footer),
      stopped = halt, raised = False\<rparr>"
  using secrets_present [of e "''OPENAI_API_KEY''"] by (simp add: app_def buffer_def Let_def)

subsection \<open>Executions of app_1.py, case by case\<close>


lemma missing_secret_required:
  "missing_secret sec required_secrets =
     (if sec ''OPENAI_API_KEY'' = None then Some ''OPENAI_API_KEY''
      else if sec ''MONGODB_URI'' = None then Some ''MONGODB_URI'' else None)"
  by (simp add: required_secrets_def)

lemma app_1_turn_too_long:
  "length inp > 2000 \<Longrightarrow>
   app_1_turn e sid inp ms coll =
     (ms, coll, [Error ''Input too long. Please shorten your message.''], True)"
  by (simp add: app_1_turn_def)

lemma app_1_turn_failure:
  assumes "length inp \<le> 2000"
    and "\<forall>c t. openai_create e (build_messages SYSTEM_PROMPT_1 (ms @ [\<lparr>role = ''user'', content = inp\<rparr>])) \<noteq> ChatCompletion c t"
  shows "app_1_turn e sid inp ms coll =
     (trim_history (ms @ [\<lparr>role = ''user'', content = inp\<rparr>]),
      coll @ [new_document sid (utcnow e 0) ''user'' inp None],
      [InsertOne (new_document sid (utcnow e 0) ''user'' inp None),
       ChatMessage ''user'' inp,
       ChatCompletionCreate (build_messages SYSTEM_PROMPT_1 (ms @ [\<lparr>role = ''user'', content = inp\<rparr>])),
       Error (case openai_create e (build_messages SYSTEM_PROMPT_1 (ms @ [\<lparr>role = ''user'', content = inp\<rparr>])) of
                RateLimitError \<Rightarrow> ''Too many requests. Please try again shortly.''
              | Timeout \<Rightarrow> ''Request timed out. Please try again.''
              | _ \<Rightarrow> ''AI service temporarily unavailable.'')],
      False)"
  using assms
  by (cases "openai_create e (build_messages SYSTEM_PROMPT_1 (ms @ [\<lparr>role = ''user'', content = inp\<rparr>]))")
     (simp_all add: app_1_turn_def generate_response_def save_message_def Let_def)

lemma app_1_turn_blank:
  assumes "length inp \<le> 2000"
    and "openai_create e (build_messages SYSTEM_PROMPT_1 (ms @ [\<lparr>role = ''user'', content = inp\<rparr>])) = ChatCompletion c t"
    and "strip c = []"
  shows "app_1_turn e sid inp ms coll =
     (trim_history (ms @ [\<lparr>role = ''user'', content = inp\<rparr>]),
      coll @ [new_document sid (utcnow e 0) ''user'' inp None],
      [InsertOne (new_document sid (utcnow e 0) ''user'' inp None),
       ChatMessage ''user'' inp,
       ChatCompletionCreate (build_messages SYSTEM_PROMPT_1 (ms @ [\<lparr>role = ''user'', content = inp\<rparr>]))],
      False)"
  using assms by (simp add: app_1_turn_def generate_response_def save_message_def Let_def)

lemma app_1_turn_reply:
  assumes "length inp \<le> 2000"
    and "openai_create e (build_messages SYSTEM_PROMPT_1 (ms @ [\<lparr>role = ''user'', content = inp\<rparr>])) = ChatCompletion c t"
    and "strip c \<noteq> []"
  shows "app_1_turn e sid inp ms coll =
     (trim_history (ms @ [\<lparr>role = ''user'', content = inp\<rparr>, \<lparr>role = ''assistant'', content = strip c\<rparr>]),
      coll @ [new_document sid (utcnow e 0) ''user'' inp None,
              new_document sid (utcnow e 1) ''assistant'' (strip c) (Some t)],
      [InsertOne (new_document sid (utcnow e 0) ''user'' inp None),
       ChatMessage ''user'' inp,
       ChatCompletionCreate (build_messages SYSTEM_PROMPT_1 (ms @ [\<lparr>role = ''user'', content = inp\<rparr>])),
       InsertOne (new_document sid (utcnow e 1) ''assistant'' (strip c) (Some t)),
       ChatMessage ''assistant'' (strip c)],
      False)"
  using assms by (simp add: app_1_turn_def generate_response_def save_message_def Let_def)

lemma app_1_no_secrets_file:
  "st_secrets e = None \<Longrightarrow>
   app_1 e s coll = \<lparr>session = s, trace = [], stopped = True, raised = True, collection = coll\<rparr>"
  by (simp add: app_1_def)

lemma app_1_no_secret:
  "st_secrets e \<noteq> None \<Longrightarrow>
   secrets e ''OPENAI_API_KEY'' = None \<or> secrets e ''MONGODB_URI'' = None \<Longrightarrow>
   app_1 e s coll =
     \<lparr>session = s,
      trace = [Error (''Missing required secret: '' @
                 (if secrets e ''OPENAI_API_KEY'' = None then ''OPENAI_API_KEY'' else ''MONGODB_URI''))],
      stopped = True, raised = False, collection = coll\<rparr>"
  by (auto simp add: app_1_def missing_secret_required)

lemma app_1_no_database:
  "secrets e ''OPENAI_API_KEY'' \<noteq> None \<Longrightarrow> secrets e ''MONGODB_URI'' \<noteq> None \<Longrightarrow>
   mongo e = ConnectionFailure \<Longrightarrow>
   app_1 e s coll =
     \<lparr>session = s, trace = [Error ''Database connection failed.''], stopped = True, raised = False,
      collection = coll\<rparr>"
  using secrets_present [of e "''OPENAI_API_KEY''"]
  by (simp add: app_1_def missing_secret_required)

lemma app_1_connection_raises:
  "secrets e ''OPENAI_API_KEY'' \<noteq> None \<Longrightarrow> secrets e ''MONGODB_URI'' \<noteq> None \<Longrightarrow>
   mongo e = OtherMongoError \<Longrightarrow>
   app_1 e s coll = \<lparr>session = s, trace = [], stopped = True, raised = True, collection = coll\<rparr>"
  using secrets_present [of e "''OPENAI_API_KEY''"]
  by (simp add: app_1_def missing_secret_required)

lemma app_1_start_up_failure:
  assumes "secrets e ''OPENAI_API_KEY'' = None \<or> secrets e ''MONGODB_URI'' = None \<or> \<not> mongo_reachable e"
  shows "app_1 e s coll =
     \<lparr>session = s,
      trace = (if st_secrets e = None then []
               else if secrets e ''OPENAI_API_KEY'' = None
               then [Error ''Missing required secret: OPENAI_API_KEY'']
               else if secrets e ''MONGODB_URI'' = None
               then [Error ''Missing required secret: MONGODB_URI'']
               else if mongo e = ConnectionFailure then [Error ''Database connection failed.'']
               else []),
      stopped = True,
      raised = (st_secrets e = None \<or>
                (secrets e ''OPENAI_API_KEY'' \<noteq> None \<and> secrets e ''MONGODB_URI'' \<noteq> None \<and>
                 mongo e = OtherMongoError)),
      collection = coll\<rparr>"
proof (cases "st_secrets e = None")
  case True
  then show ?thesis by (simp add: app_1_no_secrets_file)
next
  case f: False
  show ?thesis
  proof (cases "secrets e ''OPENAI_API_KEY'' = None \<or> secrets e ''MONGODB_URI'' = None")
    case True
    with f show ?thesis by (auto simp add: app_1_no_secret)
  next
    case False
    with assms have "mongo e \<noteq> Connected" by (auto simp add: mongo_reachable_def)
    with f False show ?thesis
      by (cases "mongo e") (simp_all add: app_1_no_database app_1_connection_raises)
  qed
qed

lemma app_1_idle:
  "secrets e ''OPENAI_API_KEY'' \<noteq> None \<Longrightarrow> secrets e ''MONGODB_URI'' \<noteq> None \<Longrightarrow>
   mongo_reachable e \<Longrightarrow> \<not> truthy (chat_input e) \<Longrightarrow>
   app_1 e s coll =
     \<lparr>session = s\<lparr>session_id := Some (current_session_id e s),
                  messages := Some (initial_buffer e s coll)\<rparr>,
      trace = [Title, Caption] @
              (case messages s of None \<Rightarrow> [Find (current_session_id e s)] | Some m \<Rightarrow> []) @
              display_history (initial_buffer e s coll) @ footer,
      stopped = False, raised = False, collection = coll\<rparr>"
  using secrets_present [of e "''OPENAI_API_KEY''"]
  by (simp add: app_1_def missing_secret_required Let_def current_session_id_def initial_buffer_def
        split: option.splits)

lemma app_1_input:
  "secrets e ''OPENAI_API_KEY'' \<noteq> None \<Longrightarrow> secrets e ''MONGODB_URI'' \<noteq> None \<Longrightarrow>
   mongo_reachable e \<Longrightarrow> chat_input e = Some inp \<Longrightarrow> inp \<noteq> [] \<Longrightarrow>
   app_1_turn e (current_session_id e s) inp (initial_buffer e s coll) coll = (ms', coll', evs, halt) \<Longrightarrow>
   app_1 e s coll =
     \<lparr>session = s\<lparr>session_id := Some (current_session_id e s), messages := Some ms'\<rparr>,
      trace = [Title, Caption] @
              (case messages s of None \<Rightarrow> [Find (current_session_id e s)] | Some m \<Rightarrow> []) @
              display_history (initial_buffer e s coll) @ evs @ (if halt then [] else footer),
      stopped = halt, raised = False, collection = coll'\<rparr>"
  using secrets_present [of e "''OPENAI_API_KEY''"]
  by (simp add: app_1_def missing_secret_required Let_def current_session_id_def initial_buffer_def
        split: option.splits)

subsection \<open>When an execution stops, and the bound on the buffer\<close>


lemma app_turn_halt_iff:
  "snd (snd (app_turn e inp ms)) \<longleftrightarrow> length inp > 2000"
  by (simp add: app_turn_def Let_def split_def split: option.splits)

lemma app_1_turn_halt_iff:
  "snd (snd (snd (app_1_turn e sid inp ms coll))) \<longleftrightarrow> length inp > 2000"
  by (simp add: app_1_turn_def Let_def split_def split: option.splits)

lemma app_turn_bounded:
  "length inp \<le> 2000 \<Longrightarrow> length (fst (app_turn e inp ms)) \<le> MAX_MESSAGES"
  by (simp add: app_turn_def Let_def split_def trim_history_le split: option.splits)

lemma app_1_turn_bounded:
  "length inp \<le> 2000 \<Longrightarrow> length (fst (app_1_turn e sid inp ms coll)) \<le> MAX_MESSAGES"
  by (simp add: app_1_turn_def Let_def split_def trim_history_le split: option.splits)

lemma app_stopped_iff:
  "stopped (app e s) \<longleftrightarrow>
     secrets e ''OPENAI_API_KEY'' = None \<or> (\<exists>inp. chat_input e = Some inp \<and> length inp > 2000)"
proof (cases "secrets e ''OPENAI_API_KEY'' = None")
  case True
  then show ?thesis by (simp add: app_start_up_failure)
next
  case k: False
  show ?thesis
  proof (cases "truthy (chat_input e)")
    case False
    with k show ?thesis
      by (cases "chat_input e") (auto simp add: app_idle)
  next
    case True
    then obtain inp where inp: "chat_input e = Some inp" "inp \<noteq> []"
      by (cases "chat_input e") auto
    obtain ms' evs halt where t: "app_turn e inp (buffer s) = (ms', evs, halt)"
      by (cases "app_turn e inp (buffer s)") auto
    with app_turn_halt_iff [of e inp "buffer s"] have "halt \<longleftrightarrow> length inp > 2000"
      by simp
    with k inp show ?thesis
      by (auto simp add: app_input [OF k inp t])
  qed
qed

lemma app_buffer_bounded:
  assumes "truthy (chat_input e)" and "\<not> stopped (app e s)"
  shows "length (buffer (session (app e s))) \<le> MAX_MESSAGES"
proof -
  from assms(1) obtain inp where inp: "chat_input e = Some inp" "inp \<noteq> []"
    by (cases "chat_input e") auto
  from assms(2) inp have k: "secrets e ''OPENAI_API_KEY'' \<noteq> None" and l: "length inp \<le> 2000"
    by (auto simp: app_stopped_iff)
  obtain ms' evs halt where t: "app_turn e inp (buffer s) = (ms', evs, halt)"
    by (cases "app_turn e inp (buffer s)") auto
  with app_turn_bounded [OF l, of e "buffer s"] have "length ms' \<le> MAX_MESSAGES"
    by simp
  then show ?thesis
    by (simp add: app_input [OF k inp t] buffer_def)
qed

lemma app_1_stopped_iff:
  "stopped (app_1 e s coll) \<longleftrightarrow>
     secrets e ''OPENAI_API_KEY'' = None \<or> secrets e ''MONGODB_URI'' = None \<or>
     \<not> mongo_reachable e \<or> (\<exists>inp. chat_input e = Some inp \<and> length inp > 2000)"
proof (cases "secrets e ''OPENAI_API_KEY'' \<noteq> None \<and> secrets e ''MONGODB_URI'' \<noteq> None \<and> mongo_reachable e")
  case False
  then have "secrets e ''OPENAI_API_KEY'' = None \<or> secrets e ''MONGODB_URI'' = None \<or>
      \<not> mongo_reachable e"
    by blast
  from app_1_start_up_failure [OF this, of s coll] this show ?thesis
    by auto
next
  case True
  show ?thesis
  proof (cases "chat_input e")
    case None
    with True show ?thesis by (simp add: app_1_idle)
  next
    case inp: (Some inp)
    show ?thesis
    proof (cases "inp = []")
      case True
      with \<open>_ \<and> _\<close> inp show ?thesis by (simp add: app_1_idle)
    next
      case False
      obtain ms' coll' evs halt where
        t: "app_1_turn e (current_session_id e s) inp (initial_buffer e s coll) coll = (ms', coll', evs, halt)"
        by (cases "app_1_turn e (current_session_id e s) inp (initial_buffer e s coll) coll") auto
      with app_1_turn_halt_iff [of e "current_session_id e s" inp "initial_buffer e s coll" coll]
      have "halt \<longleftrightarrow> length inp > 2000" by simp
      with True inp False show ?thesis
        by (auto simp add: app_1_input [OF _ _ _ inp False t])
    qed
  qed
qed

lemma app_1_buffer_bounded:
  assumes "truthy (chat_input e)" and "\<not> stopped (app_1 e s coll)"
  shows "length (buffer (session (app_1 e s coll))) \<le> MAX_MESSAGES"
proof -
  from assms(1) obtain inp where inp: "chat_input e = Some inp" "inp \<noteq> []"
    by (cases "chat_input e") auto
  from assms(2) inp have k: "secrets e ''OPENAI_API_KEY'' \<noteq> None"
    "secrets e ''MONGODB_URI'' \<noteq> None" "mongo_reachable e" and l: "length inp \<le> 2000"
    by (auto simp: app_1_stopped_iff)
  obtain ms' coll' evs halt where
    t: "app_1_turn e (current_session_id e s) inp (initial_buffer e s coll) coll = (ms', coll', evs, halt)"
    by (cases "app_1_turn e (current_session_id e s) inp (initial_buffer e s coll) coll") auto
  with app_1_turn_bounded [OF l, of e "current_session_id e s" "initial_buffer e s coll" coll]
  have "length ms' \<le> MAX_MESSAGES" by simp
  then show ?thesis
    by (simp add: app_1_input [OF k inp t] buffer_def)
qed

lemma demo_env_simps [simp]:
  "secrets (demo_env inp a) ''OPENAI_API_KEY'' = Some ''sk-demo''"
  "secrets (demo_env inp a) ''MONGODB_URI'' = Some ''mongodb://demo''"
  "chat_input (demo_env inp a) = inp"
  "openai_create (demo_env inp a) q = a"
  "utcnow (demo_env inp a) k = 1000 + int k"
  "uuid4 (demo_env inp a) = ''session-a''"
  "mongo_reachable (demo_env inp a)"
  by (simp_all add: demo_env_def demo_secrets_def secrets_def mongo_reachable_def)

lemma session_with_simps [simp]:
  "messages (session_with ms) = Some ms"
  "session_id (session_with ms) = Some ''session-a''"
  "conversation_start_time (session_with ms) = Some 0"
  "buffer (session_with ms) = ms"
  "current_session_id e (session_with ms) = ''session-a''"
  "initial_buffer e (session_with ms) coll = ms"
  by (simp_all add: session_with_def buffer_def current_session_id_def initial_buffer_def)

lemma length_long_history [simp]: "length long_history = 25"
  by (simp add: long_history_def)

subsection \<open>Trimming, and the cases of a turn and of an execution\<close>

lemma set_trim_history: "set (trim_history ms) \<subseteq> set ms"
  by (auto simp: trim_history_def slice_last_def dest: in_set_dropD)

lemma last_trim_history_snoc: "last (trim_history (ms @ [m])) = m"
  by (simp add: trim_history_def slice_last_def MAX_MESSAGES_def)

lemma trim_history_snoc_not_Nil: "trim_history (ms @ [m]) \<noteq> []"
  by (simp add: trim_history_def slice_last_def MAX_MESSAGES_def)

lemma app_turn_cases:
  obtains (too_long) "length inp > 2000"
      "app_turn e inp ms = (ms, [Error ''Input too long. Please shorten your message.''], True)"
  | (no_reply) evs where "length inp \<le> 2000"
      "app_turn e inp ms = (trim_history (ms @ [\<lparr>role = ''user'', content = inp\<rparr>]), evs, False)"
      "requests evs = [build_messages SYSTEM_PROMPT (ms @ [\<lparr>role = ''user'', content = inp\<rparr>])]"
  | (reply) r evs where "length inp \<le> 2000" "r \<noteq> []"
      "app_turn e inp ms =
         (trim_history (ms @ [\<lparr>role = ''user'', content = inp\<rparr>, \<lparr>role = ''assistant'', content = r\<rparr>]),
          evs, False)"
      "requests evs = [build_messages SYSTEM_PROMPT (ms @ [\<lparr>role = ''user'', content = inp\<rparr>])]"
proof (cases "length inp > 2000")
  case True
  then show ?thesis using too_long app_turn_too_long by blast
next
  case False
  then have l: "length inp \<le> 2000" by simp
  let ?q = "build_messages SYSTEM_PROMPT (ms @ [\<lparr>role = ''user'', content = inp\<rparr>])"
  show ?thesis
  proof (cases "\<exists>c t. openai_create e ?q = ChatCompletion c t")
    case False
    then have "\<forall>c t. openai_create e ?q \<noteq> ChatCompletion c t" by blast
    from app_turn_failure [OF l this] show ?thesis
      using no_reply [OF l] by simp
  next
    case True
    then obtain c t where c: "openai_create e ?q = ChatCompletion c t" by blast
    show ?thesis
    proof (cases "strip c = []")
      case True
      from app_turn_blank [OF l c True] show ?thesis
        using no_reply [OF l] by simp
    next
      case False
      from app_turn_reply [OF l c False] show ?thesis
        using reply [OF l False] by simp
    qed
  qed
qed

lemma app_1_turn_cases:
  obtains (too_long) "length inp > 2000"
      "app_1_turn e sid inp ms coll =
         (ms, coll, [Error ''Input too long. Please shorten your message.''], True)"
  | (no_reply) evs where "length inp \<le> 2000"
      "app_1_turn e sid inp ms coll =
         (trim_history (ms @ [\<lparr>role = ''user'', content = inp\<rparr>]),
          coll @ [new_document sid (utcnow e 0) ''user'' inp None], evs, False)"
      "requests evs = [build_messages SYSTEM_PROMPT_1 (ms @ [\<lparr>role = ''user'', content = inp\<rparr>])]"
      "inserts evs = [new_document sid (utcnow e 0) ''user'' inp None]"
  | (reply) r t evs where "length inp \<le> 2000" "r \<noteq> []"
      "app_1_turn e sid inp ms coll =
         (trim_history (ms @ [\<lparr>role = ''user'', content = inp\<rparr>, \<lparr>role = ''assistant'', content = r\<rparr>]),
          coll @ [new_document sid (utcnow e 0) ''user'' inp None,
                  new_document sid (utcnow e 1) ''assistant'' r (Some t)], evs, False)"
      "requests evs = [build_messages SYSTEM_PROMPT_1 (ms @ [\<lparr>role = ''user'', content = inp\<rparr>])]"
      "inserts evs = [new_document sid (utcnow e 0) ''user'' inp None,
                      new_document sid (utcnow e 1) ''assistant'' r (Some t)]"
proof (cases "length inp > 2000")
  case True
  then show ?thesis using too_long app_1_turn_too_long by blast
next
  case False
  then have l: "length inp \<le> 2000" by simp
  let ?q = "build_messages SYSTEM_PROMPT_1 (ms @ [\<lparr>role = ''user'', content = inp\<rparr>])"
  show ?thesis
  proof (cases "\<exists>c t. openai_create e ?q = ChatCompletion c t")
    case False
    then have "\<forall>c t. openai_create e ?q \<noteq> ChatCompletion c t" by blast
    from app_1_turn_failure [OF l this] show ?thesis
      using no_reply [OF l] by simp
  next
    case True
    then obtain c t where c: "openai_create e ?q = ChatCompletion c t" by blast
    show ?thesis
    proof (cases "strip c = []")
      case True
      from app_1_turn_blank [OF l c True] show ?thesis
        using no_reply [OF l] by simp
    next
      case False
      from app_1_turn_reply [OF l c False] show ?thesis
        using reply [OF l False] by simp
    qed
  qed
qed

lemma buffer_update [simp]:
  "buffer (s\<lparr>messages := Some ms\<rparr>) = ms"
  "buffer (s\<lparr>messages := Some ms, conversation_start_time := t\<rparr>) = ms"
  "buffer (s\<lparr>session_id := i, messages := Some ms\<rparr>) = ms"
  by (simp_all add: buffer_def)

lemma app_cases:
  obtains (no_key) tr r where "secrets e ''OPENAI_API_KEY'' = None"
      "app e s = \<lparr>session = s, trace = tr, stopped = True, raised = r\<rparr>"
      "tr = [] \<or> tr = [Error ''OpenAI API key not configured.'']"
  | (idle) "secrets e ''OPENAI_API_KEY'' \<noteq> None" "\<not> truthy (chat_input e)"
      "app e s =
         \<lparr>session = s\<lparr>messages := Some (buffer s),
                      conversation_start_time :=
                        Some (case conversation_start_time s of None \<Rightarrow> utcnow e 0 | Some t \<Rightarrow> t)\<rparr>,
          trace = [Title, Caption] @ display_history (buffer s) @ footer, stopped = False, raised = False\<rparr>"
  | (turn) inp ms' evs halt where "secrets e ''OPENAI_API_KEY'' \<noteq> None"
      "chat_input e = Some inp" "inp \<noteq> []"
      "app_turn e inp (buffer s) = (ms', evs, halt)"
      "app e s =
         \<lparr>session = s\<lparr>messages := Some ms',
                      conversation_start_time :=
                        Some (case conversation_start_time s of None \<Rightarrow> utcnow e 0 | Some t \<Rightarrow> t)\<rparr>,
          trace = [Title, Caption] @ display_history (buffer s) @ evs @ (if halt then [] else footer),
          stopped = halt, raised = False\<rparr>"
proof (cases "secrets e ''OPENAI_API_KEY'' = None")
  case True
  from no_key [OF True app_start_up_failure [OF True]] show ?thesis
    by simp
next
  case k: False
  show ?thesis
  proof (cases "truthy (chat_input e)")
    case False
    with k show ?thesis using idle app_idle by blast
  next
    case True
    then obtain inp where inp: "chat_input e = Some inp" "inp \<noteq> []"
      by (cases "chat_input e") auto
    obtain ms' evs halt where t: "app_turn e inp (buffer s) = (ms', evs, halt)"
      by (cases "app_turn e inp (buffer s)") auto
    from turn [OF k inp t] app_input [OF k inp t] show ?thesis by blast
  qed
qed

lemma app_1_cases:
  obtains (halted) tr r where
      "secrets e ''OPENAI_API_KEY'' = None \<or> secrets e ''MONGODB_URI'' = None \<or> \<not> mongo_reachable e"
      "app_1 e s coll = \<lparr>session = s, trace = tr, stopped = True, raised = r, collection = coll\<rparr>"
      "tr = [] \<or> (\<exists>t. tr = [Error t])"
  | (idle) "secrets e ''OPENAI_API_KEY'' \<noteq> None" "secrets e ''MONGODB_URI'' \<noteq> None"
      "mongo_reachable e" "\<not> truthy (chat_input e)"
      "app_1 e s coll =
         \<lparr>session = s\<lparr>session_id := Some (current_session_id e s),
                      messages := Some (initial_buffer e s coll)\<rparr>,
          trace = [Title, Caption] @
                  (case messages s of None \<Rightarrow> [Find (current_session_id e s)] | Some m \<Rightarrow> []) @
                  display_history (initial_buffer e s coll) @ footer,
          stopped = False, raised = False, collection = coll\<rparr>"
  | (turn) inp ms' coll' evs halt where "secrets e ''OPENAI_API_KEY'' \<noteq> None"
      "secrets e ''MONGODB_URI'' \<noteq> None" "mongo_reachable e"
      "chat_input e = Some inp" "inp \<noteq> []"
      "app_1_turn e (current_session_id e s) inp (initial_buffer e s coll) coll = (ms', coll', evs, halt)"
      "app_1 e s coll =
         \<lparr>session = s\<lparr>session_id := Some (current_session_id e s), messages := Some ms'\<rparr>,
          trace = [Title, Caption] @
                  (case messages s of None \<Rightarrow> [Find (current_session_id e s)] | Some m \<Rightarrow> []) @
                  display_history (initial_buffer e s coll) @ evs @ (if halt then [] else footer),
          stopped = halt, raised = False, collection = coll'\<rparr>"
proof (cases "secrets e ''OPENAI_API_KEY'' = None \<or> secrets e ''MONGODB_URI'' = None \<or>
    \<not> mongo_reachable e")
  case True
  from halted [OF True app_1_start_up_failure [OF True]] show ?thesis
    by simp
next
  case False
  then have k: "secrets e ''OPENAI_API_KEY'' \<noteq> None" "secrets e ''MONGODB_URI'' \<noteq> None"
    and r: "mongo_reachable e"
    by simp_all
  show ?thesis
  proof (cases "truthy (chat_input e)")
    case False
    with k r show ?thesis using idle app_1_idle by blast
  next
    case True
    then obtain inp where inp: "chat_input e = Some inp" "inp \<noteq> []"
      by (cases "chat_input e") auto
    obtain ms' coll' evs halt where
      t: "app_1_turn e (current_session_id e s) inp (initial_buffer e s coll) coll = (ms', coll', evs, halt)"
      by (cases "app_1_turn e (current_session_id e s) inp (initial_buffer e s coll) coll") auto
    from turn [OF k r inp t] app_1_input [OF k r inp t] show ?thesis by blast
  qed
qed

subsection \<open>No system message is stored\<close>

lemma app_turn_no_system:
  assumes "\<forall>m \<in> set ms. role m \<noteq> ''system''"
  shows "\<forall>m \<in> set (fst (app_turn e inp ms)). role m \<noteq> ''system''"
proof (cases rule: app_turn_cases [of inp e ms])
  case too_long
  with assms show ?thesis by simp
next
  case (no_reply evs)
  with assms show ?thesis using set_trim_history by fastforce
next
  case (reply r evs)
  with assms show ?thesis using set_trim_history by fastforce
qed

lemma app_no_system:
  assumes "\<forall>m \<in> set (buffer s). role m \<noteq> ''system''"
  shows "\<forall>m \<in> set (buffer (session (app e s))). role m \<noteq> ''system''"
proof (cases rule: app_cases [of e s])
  case (no_key tr r)
  with assms show ?thesis by simp
next
  case idle
  with assms show ?thesis by simp
next
  case (turn inp ms' evs halt)
  with app_turn_no_system [OF assms, of e inp] show ?thesis by simp
qed

lemma load_messages_no_system:
  assumes "\<forall>d \<in> set coll. doc_role d \<noteq> ''system''"
  shows "\<forall>m \<in> set (load_messages sid coll). role m \<noteq> ''system''"
  using assms by (auto simp: load_messages_def find_sorted_def)

lemma initial_buffer_no_system:
  assumes "\<forall>m \<in> set (buffer s). role m \<noteq> ''system''" "\<forall>d \<in> set coll. doc_role d \<noteq> ''system''"
  shows "\<forall>m \<in> set (initial_buffer e s coll). role m \<noteq> ''system''"
  using assms load_messages_no_system [of coll "current_session_id e s"]
  by (cases "messages s") (simp_all add: initial_buffer_def buffer_def)

lemma app_1_turn_no_system:
  assumes "\<forall>m \<in> set ms. role m \<noteq> ''system''" "\<forall>d \<in> set coll. doc_role d \<noteq> ''system''"
  shows "(\<forall>m \<in> set (fst (app_1_turn e sid inp ms coll)). role m \<noteq> ''system'') \<and>
         (\<forall>d \<in> set (fst (snd (app_1_turn e sid inp ms coll))). doc_role d \<noteq> ''system'')"
proof (cases rule: app_1_turn_cases [of inp e sid ms coll])
  case too_long
  with assms show ?thesis by simp
next
  case (no_reply evs)
  with assms show ?thesis using set_trim_history by (fastforce simp: new_document_def)
next
  case (reply r t evs)
  with assms show ?thesis using set_trim_history by (fastforce simp: new_document_def)
qed

lemma app_1_no_system:
  assumes "\<forall>m \<in> set (buffer s). role m \<noteq> ''system''" "\<forall>d \<in> set coll. doc_role d \<noteq> ''system''"
  shows "(\<forall>m \<in> set (buffer (session (app_1 e s coll))). role m \<noteq> ''system'') \<and>
         (\<forall>d \<in> set (collection (app_1 e s coll)). doc_role d \<noteq> ''system'')"
proof (cases rule: app_1_cases [of e s coll])
  case (halted tr r)
  with assms show ?thesis by simp
next
  case idle
  with assms initial_buffer_no_system [OF assms, of e] show ?thesis by simp
next
  case (turn inp ms' coll' evs halt)
  with app_1_turn_no_system [OF initial_buffer_no_system [OF assms, of e] assms(2),
      of e "current_session_id e s" inp]
  show ?thesis by simp
qed

subsection \<open>Executions that handle an input to the end\<close>

lemma app_handled:
  assumes "truthy (chat_input e)" "\<not> stopped (app e s)"
  shows "\<exists>inp. chat_input e = Some inp \<and>
     requests (trace (app e s)) = [build_messages SYSTEM_PROMPT (buffer s @ [\<lparr>role = ''user'', content = inp\<rparr>])] \<and>
     (buffer (session (app e s)) = trim_history (buffer s @ [\<lparr>role = ''user'', content = inp\<rparr>]) \<or>
      (\<exists>r. buffer (session (app e s)) =
         trim_history (buffer s @ [\<lparr>role = ''user'', content = inp\<rparr>, \<lparr>role = ''assistant'', content = r\<rparr>])))"
proof (cases rule: app_cases [of e s])
  case (no_key tr r)
  with assms show ?thesis by simp
next
  case idle
  with assms show ?thesis by simp
next
  case (turn inp ms' evs halt)
  show ?thesis
  proof (cases rule: app_turn_cases [of inp e "buffer s"])
    case too_long
    with turn assms show ?thesis by simp
  next
    case (no_reply evs')
    with turn show ?thesis by simp
  next
    case (reply r evs')
    with turn show ?thesis by auto
  qed
qed

lemma app_1_handled:
  assumes "truthy (chat_input e)" "\<not> stopped (app_1 e s coll)"
  shows "\<exists>inp. chat_input e = Some inp \<and>
     requests (trace (app_1 e s coll)) =
       [build_messages SYSTEM_PROMPT_1 (initial_buffer e s coll @ [\<lparr>role = ''user'', content = inp\<rparr>])] \<and>
     (buffer (session (app_1 e s coll)) =
        trim_history (initial_buffer e s coll @ [\<lparr>role = ''user'', content = inp\<rparr>]) \<or>
      (\<exists>r. buffer (session (app_1 e s coll)) =
         trim_history (initial_buffer e s coll @
           [\<lparr>role = ''user'', content = inp\<rparr>, \<lparr>role = ''assistant'', content = r\<rparr>])))"
proof (cases rule: app_1_cases [of e s coll])
  case (halted tr r)
  with assms show ?thesis by simp
next
  case idle
  with assms show ?thesis by simp
next
  case (turn inp ms' coll' evs halt)
  show ?thesis
  proof (cases rule: app_1_turn_cases [of inp e "current_session_id e s" "initial_buffer e s coll" coll])
    case too_long
    with turn assms show ?thesis by simp
  next
    case (no_reply evs')
    with turn show ?thesis by (simp split: option.splits)
  next
    case (reply r t evs')
    with turn show ?thesis by (auto split: option.splits)
  qed
qed

lemma long_history_no_system: "\<forall>m \<in> set long_history. role m \<noteq> ''system''"
  by (simp add: long_history_def numbered_message_def)

lemma long_collection_no_system: "\<forall>d \<in> set long_collection. doc_role d \<noteq> ''system''"
  by (simp add: long_collection_def numbered_document_def)

lemma demo_env_without_simps [simp]:
  "secrets (demo_env_without ''OPENAI_API_KEY'') ''OPENAI_API_KEY'' = None"
  "secrets (demo_env_without ''MONGODB_URI'') ''OPENAI_API_KEY'' = Some ''sk-demo''"
  "secrets (demo_env_without ''MONGODB_URI'') ''MONGODB_URI'' = None"
  "secrets demo_env_offline ''OPENAI_API_KEY'' = Some ''sk-demo''"
  "secrets demo_env_offline ''MONGODB_URI'' = Some ''mongodb://demo''"
  "\<not> mongo_reachable demo_env_offline"
  by (simp_all add: demo_env_without_def demo_env_offline_def demo_env_def demo_secrets_def
        secrets_def mongo_reachable_def)

lemma length_long_input [simp]: "length long_input = 2001"
  by (simp add: long_input_def)

subsection \<open>Failed completion calls and blank replies\<close>

lemma failure_texts_distinct:
  "''Too many requests. Please wait a moment and try again.'' \<noteq> ''Request timed out. Please try again.''"
  "''Too many requests. Please wait a moment and try again.'' \<noteq> ''AI service temporarily unavailable.''"
  "''Request timed out. Please try again.'' \<noteq> ''AI service temporarily unavailable.''"
  "''Too many requests. Please try again shortly.'' \<noteq> ''Request timed out. Please try again.''"
  "''Too many requests. Please try again shortly.'' \<noteq> ''AI service temporarily unavailable.''"
  by simp_all

lemma app_provider_failure:
  assumes k: "secrets e ''OPENAI_API_KEY'' \<noteq> None"
    and inp: "chat_input e = Some inp" "inp \<noteq> []" and l: "length inp \<le> 2000"
    and f: "\<forall>c t. openai_create e (build_messages SYSTEM_PROMPT (buffer s @ [\<lparr>role = ''user'', content = inp\<rparr>]))
               \<noteq> ChatCompletion c t"
  shows "buffer (session (app e s)) = trim_history (buffer s @ [\<lparr>role = ''user'', content = inp\<rparr>])"
    and "last (buffer (session (app e s))) = \<lparr>role = ''user'', content = inp\<rparr>"
    and "buffer (session (app e s)) \<noteq> []"
    and "error_texts (trace (app e s)) =
          [case openai_create e (build_messages SYSTEM_PROMPT (buffer s @ [\<lparr>role = ''user'', content = inp\<rparr>])) of
             RateLimitError \<Rightarrow> ''Too many requests. Please wait a moment and try again.''
           | Timeout \<Rightarrow> ''Request timed out. Please try again.''
           | _ \<Rightarrow> ''AI service temporarily unavailable.'']"
    and "requests (trace (app e s)) =
          [build_messages SYSTEM_PROMPT (buffer s @ [\<lparr>role = ''user'', content = inp\<rparr>])]"
    and "chat_messages (trace (app e s)) = map (\<lambda>m. (role m, content m)) (buffer s) @ [(''user'', inp)]"
    and "\<not> stopped (app e s)"
  by (simp_all add: app_input [OF k inp app_turn_failure [OF l f]] last_trim_history_snoc
        trim_history_snoc_not_Nil)

lemma app_1_provider_failure:
  assumes k: "secrets e ''OPENAI_API_KEY'' \<noteq> None" "secrets e ''MONGODB_URI'' \<noteq> None" "mongo_reachable e"
    and inp: "chat_input e = Some inp" "inp \<noteq> []" and l: "length inp \<le> 2000"
    and f: "\<forall>c t. openai_create e (build_messages SYSTEM_PROMPT_1
                      (initial_buffer e s coll @ [\<lparr>role = ''user'', content = inp\<rparr>]))
               \<noteq> ChatCompletion c t"
  shows "buffer (session (app_1 e s coll)) =
           trim_history (initial_buffer e s coll @ [\<lparr>role = ''user'', content = inp\<rparr>])"
    and "last (buffer (session (app_1 e s coll))) = \<lparr>role = ''user'', content = inp\<rparr>"
    and "buffer (session (app_1 e s coll)) \<noteq> []"
    and "error_texts (trace (app_1 e s coll)) =
          [case openai_create e (build_messages SYSTEM_PROMPT_1
                   (initial_buffer e s coll @ [\<lparr>role = ''user'', content = inp\<rparr>])) of
             RateLimitError \<Rightarrow> ''Too many requests. Please try again shortly.''
           | Timeout \<Rightarrow> ''Request timed out. Please try again.''
           | _ \<Rightarrow> ''AI service temporarily unavailable.'']"
    and "requests (trace (app_1 e s coll)) =
          [build_messages SYSTEM_PROMPT_1 (initial_buffer e s coll @ [\<lparr>role = ''user'', content = inp\<rparr>])]"
    and "chat_messages (trace (app_1 e s coll)) =
           map (\<lambda>m. (role m, content m)) (initial_buffer e s coll) @ [(''user'', inp)]"
    and "collection (app_1 e s coll) =
           coll @ [new_document (current_session_id e s) (utcnow e 0) ''user'' inp None]"
    and "inserts (trace (app_1 e s coll)) =
           [new_document (current_session_id e s) (utcnow e 0) ''user'' inp None]"
    and "\<not> stopped (app_1 e s coll)"
  by (simp_all add: app_1_input [OF k inp app_1_turn_failure [OF l f]] last_trim_history_snoc
        trim_history_snoc_not_Nil split: option.splits)

lemma blank_reply_isspace: "\<forall>ch \<in> set blank_reply. isspace ch"
  by (simp add: blank_reply_def isspace_def)

lemma app_blank_reply:
  assumes k: "secrets e ''OPENAI_API_KEY'' \<noteq> None"
    and inp: "chat_input e = Some inp" "inp \<noteq> []" and l: "length inp \<le> 2000"
    and c: "openai_create e (build_messages SYSTEM_PROMPT (buffer s @ [\<lparr>role = ''user'', content = inp\<rparr>]))
               = ChatCompletion c t"
    and b: "\<forall>ch \<in> set c. isspace ch"
  shows "buffer (session (app e s)) = trim_history (buffer s @ [\<lparr>role = ''user'', content = inp\<rparr>])"
    and "last (buffer (session (app e s))) = \<lparr>role = ''user'', content = inp\<rparr>"
    and "chat_messages (trace (app e s)) = map (\<lambda>m. (role m, content m)) (buffer s) @ [(''user'', inp)]"
    and "error_texts (trace (app e s)) = []"
    and "requests (trace (app e s)) =
          [build_messages SYSTEM_PROMPT (buffer s @ [\<lparr>role = ''user'', content = inp\<rparr>])]"
    and "\<not> stopped (app e s)"
  using b
  by (simp_all add: app_input [OF k inp app_turn_blank [OF l c]] strip_eq_Nil last_trim_history_snoc)

lemma app_blank_like_failure:
  assumes k: "secrets e ''OPENAI_API_KEY'' \<noteq> None"
    and inp: "chat_input e = Some inp" "inp \<noteq> []" and l: "length inp \<le> 2000"
    and c: "openai_create e (build_messages SYSTEM_PROMPT (buffer s @ [\<lparr>role = ''user'', content = inp\<rparr>]))
               = ChatCompletion c t"
    and b: "\<forall>ch \<in> set c. isspace ch"
  shows "session (app e s) = session (app (e\<lparr>openai_create := (\<lambda>_. OtherException)\<rparr>) s)"
    and "chat_messages (trace (app e s)) =
         chat_messages (trace (app (e\<lparr>openai_create := (\<lambda>_. OtherException)\<rparr>) s))"
proof -
  let ?e = "e\<lparr>openai_create := (\<lambda>_. OtherException)\<rparr>"
  have k': "secrets ?e ''OPENAI_API_KEY'' \<noteq> None" and inp': "chat_input ?e = Some inp"
    using k inp by simp_all
  have f: "\<forall>c t. openai_create ?e (build_messages SYSTEM_PROMPT (buffer s @ [\<lparr>role = ''user'', content = inp\<rparr>]))
               \<noteq> ChatCompletion c t"
    by simp
  from b have sc: "strip c = []" by (simp add: strip_eq_Nil)
  show "session (app e s) = session (app ?e s)"
    by (simp add: app_input [OF k inp app_turn_blank [OF l c sc]]
        app_input [OF k' inp' inp(2) app_turn_failure [OF l f]] split: option.splits)
  show "chat_messages (trace (app e s)) = chat_messages (trace (app ?e s))"
    by (simp add: app_input [OF k inp app_turn_blank [OF l c sc]]
        app_input [OF k' inp' inp(2) app_turn_failure [OF l f]])
qed

lemma app_1_blank_reply:
  assumes k: "secrets e ''OPENAI_API_KEY'' \<noteq> None" "secrets e ''MONGODB_URI'' \<noteq> None" "mongo_reachable e"
    and inp: "chat_input e = Some inp" "inp \<noteq> []" and l: "length inp \<le> 2000"
    and c: "openai_create e (build_messages SYSTEM_PROMPT_1
                      (initial_buffer e s coll @ [\<lparr>role = ''user'', content = inp\<rparr>]))
               = ChatCompletion c t"
    and b: "\<forall>ch \<in> set c. isspace ch"
  shows "buffer (session (app_1 e s coll)) =
           trim_history (initial_buffer e s coll @ [\<lparr>role = ''user'', content = inp\<rparr>])"
    and "last (buffer (session (app_1 e s coll))) = \<lparr>role = ''user'', content = inp\<rparr>"
    and "chat_messages (trace (app_1 e s coll)) =
           map (\<lambda>m. (role m, content m)) (initial_buffer e s coll) @ [(''user'', inp)]"
    and "error_texts (trace (app_1 e s coll)) = []"
    and "requests (trace (app_1 e s coll)) =
          [build_messages SYSTEM_PROMPT_1 (initial_buffer e s coll @ [\<lparr>role = ''user'', content = inp\<rparr>])]"
    and "collection (app_1 e s coll) =
           coll @ [new_document (current_session_id e s) (utcnow e 0) ''user'' inp None]"
    and "inserts (trace (app_1 e s coll)) =
           [new_document (current_session_id e s) (utcnow e 0) ''user'' inp None]"
    and "\<not> stopped (app_1 e s coll)"
  using b
  by (simp_all add: app_1_input [OF k inp app_1_turn_blank [OF l c]] strip_eq_Nil
        last_trim_history_snoc split: option.splits)

lemma app_1_blank_like_failure:
  assumes k: "secrets e ''OPENAI_API_KEY'' \<noteq> None" "secrets e ''MONGODB_URI'' \<noteq> None" "mongo_reachable e"
    and inp: "chat_input e = Some inp" "inp \<noteq> []" and l: "length inp \<le> 2000"
    and c: "openai_create e (build_messages SYSTEM_PROMPT_1
                      (initial_buffer e s coll @ [\<lparr>role = ''user'', content = inp\<rparr>]))
               = ChatCompletion c t"
    and b: "\<forall>ch \<in> set c. isspace ch"
  shows "session (app_1 e s coll) = session (app_1 (e\<lparr>openai_create := (\<lambda>_. OtherException)\<rparr>) s coll)"
    and "collection (app_1 e s coll) =
         collection (app_1 (e\<lparr>openai_create := (\<lambda>_. OtherException)\<rparr>) s coll)"
    and "chat_messages (trace (app_1 e s coll)) =
         chat_messages (trace (app_1 (e\<lparr>openai_create := (\<lambda>_. OtherException)\<rparr>) s coll))"
proof -
  let ?e = "e\<lparr>openai_create := (\<lambda>_. OtherException)\<rparr>"
  have k': "secrets ?e ''OPENAI_API_KEY'' \<noteq> None" "secrets ?e ''MONGODB_URI'' \<noteq> None"
    "mongo_reachable ?e" and inp': "chat_input ?e = Some inp"
    using k inp by simp_all
  have ib: "initial_buffer ?e s coll = initial_buffer e s coll"
    and ci: "current_session_id ?e s = current_session_id e s"
    by (simp_all add: initial_buffer_def current_session_id_def split: option.splits)
  have f: "\<forall>c t. openai_create ?e (build_messages SYSTEM_PROMPT_1
                 (initial_buffer ?e s coll @ [\<lparr>role = ''user'', content = inp\<rparr>]))
               \<noteq> ChatCompletion c t"
    by simp
  from b have sc: "strip c = []" by (simp add: strip_eq_Nil)
  note x = app_1_input [OF k inp app_1_turn_blank [OF l c sc]]
  note y = app_1_input [OF k' inp' inp(2) app_1_turn_failure [OF l f]]
  show "session (app_1 e s coll) = session (app_1 ?e s coll)"
    by (simp add: x y ib ci)
  show "collection (app_1 e s coll) = collection (app_1 ?e s coll)"
    by (simp add: x y ib ci)
  show "chat_messages (trace (app_1 e s coll)) = chat_messages (trace (app_1 ?e s coll))"
    by (simp add: x y ib ci split: option.splits)
qed

subsection \<open>The collection only grows\<close>

lemma app_1_turn_appends:
  "\<exists>new. fst (snd (app_1_turn e sid inp ms coll)) = coll @ new"
  by (cases rule: app_1_turn_cases [of inp e sid ms coll]) simp_all

lemma app_1_appends: "\<exists>new. collection (app_1 e s coll) = coll @ new"
proof (cases rule: app_1_cases [of e s coll])
  case (halted tr r)
  then show ?thesis by simp
next
  case idle
  then show ?thesis by simp
next
  case (turn inp ms' coll' evs halt)
  with app_1_turn_appends [of e "current_session_id e s" inp "initial_buffer e s coll" coll]
  show ?thesis by simp
qed

lemma app_1_reruns_appends: "\<exists>new. snd (app_1_reruns es s coll) = coll @ new"
proof (induction es arbitrary: s coll)
  case Nil
  show ?case by simp
next
  case (Cons e es)
  obtain n1 where n1: "collection (app_1 e s coll) = coll @ n1"
    using app_1_appends by blast
  obtain n2 where "snd (app_1_reruns es (session (app_1 e s coll)) (collection (app_1 e s coll))) =
      collection (app_1 e s coll) @ n2"
    using Cons.IH by blast
  with n1 show ?case by simp
qed

lemma app_1_insert_before_request:
  assumes k: "secrets e ''OPENAI_API_KEY'' \<noteq> None" "secrets e ''MONGODB_URI'' \<noteq> None" "mongo_reachable e"
    and inp: "chat_input e = Some inp" "inp \<noteq> []" and l: "length inp \<le> 2000"
  shows "\<exists>pre post. trace (app_1 e s coll) =
           pre @ [InsertOne (new_document (current_session_id e s) (utcnow e 0) ''user'' inp None),
                  ChatMessage ''user'' inp,
                  ChatCompletionCreate (build_messages SYSTEM_PROMPT_1
                     (initial_buffer e s coll @ [\<lparr>role = ''user'', content = inp\<rparr>]))] @ post \<and>
           requests pre = [] \<and> inserts pre = [] \<and> requests post = []"
proof -
  let ?q = "build_messages SYSTEM_PROMPT_1 (initial_buffer e s coll @ [\<lparr>role = ''user'', content = inp\<rparr>])"
  let ?ud = "new_document (current_session_id e s) (utcnow e 0) ''user'' inp None"
  let ?pre = "[Title, Caption] @
              (case messages s of None \<Rightarrow> [Find (current_session_id e s)] | Some m \<Rightarrow> []) @
              display_history (initial_buffer e s coll)"
  have pre: "requests ?pre = []" "inserts ?pre = []"
    by (simp_all split: option.splits)
  have "\<exists>ms' coll' post. app_1_turn e (current_session_id e s) inp (initial_buffer e s coll) coll =
           (ms', coll', [InsertOne ?ud, ChatMessage ''user'' inp, ChatCompletionCreate ?q] @ post, False) \<and>
           requests post = []"
  proof (cases "\<exists>c t. openai_create e ?q = ChatCompletion c t")
    case False
    then have "\<forall>c t. openai_create e ?q \<noteq> ChatCompletion c t" by blast
    from app_1_turn_failure [OF l this] show ?thesis by simp
  next
    case True
    then obtain c t where c: "openai_create e ?q = ChatCompletion c t" by blast
    show ?thesis
    proof (cases "strip c = []")
      case True
      from app_1_turn_blank [OF l c True] show ?thesis by simp
    next
      case False
      from app_1_turn_reply [OF l c False] show ?thesis by simp
    qed
  qed
  then obtain ms' coll' post where
    t: "app_1_turn e (current_session_id e s) inp (initial_buffer e s coll) coll =
           (ms', coll', [InsertOne ?ud, ChatMessage ''user'' inp, ChatCompletionCreate ?q] @ post, False)"
    and post: "requests post = []"
    by blast
  have "trace (app_1 e s coll) =
      ?pre @ [InsertOne ?ud, ChatMessage ''user'' inp, ChatCompletionCreate ?q] @ (post @ footer)"
    by (simp add: app_1_input [OF k inp t])
  moreover have "requests (post @ footer) = []"
    using post by simp
  ultimately show ?thesis
    using pre by blast
qed

lemma app_1_failure_permanent:
  assumes k: "secrets e ''OPENAI_API_KEY'' \<noteq> None" "secrets e ''MONGODB_URI'' \<noteq> None" "mongo_reachable e"
    and inp: "chat_input e = Some inp" "inp \<noteq> []" and l: "length inp \<le> 2000"
    and f: "\<forall>c t. openai_create e (build_messages SYSTEM_PROMPT_1
                      (initial_buffer e s coll @ [\<lparr>role = ''user'', content = inp\<rparr>]))
               \<noteq> ChatCompletion c t"
  shows "\<exists>new. snd (app_1_reruns es (session (app_1 e s coll)) (collection (app_1 e s coll))) =
           coll @ [new_document (current_session_id e s) (utcnow e 0) ''user'' inp None] @ new"
proof -
  obtain new where "snd (app_1_reruns es (session (app_1 e s coll)) (collection (app_1 e s coll))) =
      collection (app_1 e s coll) @ new"
    using app_1_reruns_appends by blast
  then show ?thesis
    by (simp add: app_1_provider_failure(7) [OF k inp l f])
qed

subsection \<open>Sorting by creation time, and loading a session\<close>

lemma count_list_insort_key: "count_list (insort_key f x xs) y = count_list (x # xs) y"
  by (induction xs) auto

lemma count_list_sort_key: "count_list (sort_key f xs) y = count_list xs y"
  by (induction xs) (auto simp: count_list_insort_key)

lemma insort_key_map:
  assumes "\<And>a b. f (h a) \<le> f (h b) \<longleftrightarrow> f a \<le> f b"
  shows "insort_key f (h x) (map h xs) = map h (insort_key f x xs)"
  by (induction xs) (auto simp: assms)

lemma sort_key_map:
  assumes "\<And>a b. f (h a) \<le> f (h b) \<longleftrightarrow> f a \<le> f b"
  shows "sort_key f (map h xs) = map h (sort_key f xs)"
  by (induction xs) (auto simp: insort_key_map [of f h, OF assms])

lemma load_messages_map:
  assumes o: "\<And>a b. created_at (h a) \<le> created_at (h b) \<longleftrightarrow> created_at a \<le> created_at b"
    and i: "\<And>d. doc_session_id (h d) = doc_session_id d"
    and r: "\<And>d. doc_role (h d) = doc_role d"
    and c: "\<And>d. doc_content (h d) = doc_content d"
  shows "load_messages sid (map h coll) = load_messages sid coll"
proof -
  have "filter (\<lambda>d. doc_session_id d = sid) (map h coll) =
        map h (filter (\<lambda>d. doc_session_id d = sid) coll)"
    by (simp add: filter_map o_def i)
  then have "find_sorted sid (map h coll) = map h (find_sorted sid coll)"
    by (simp add: find_sorted_def sort_key_map [of created_at h, OF o])
  then show ?thesis
    by (simp add: load_messages_def o_def r c)
qed

lemma long_collection_session:
  "filter (\<lambda>d. doc_session_id d = ''session-a'') long_collection = long_collection"
  by (simp add: long_collection_def numbered_document_def)

lemma length_long_collection [simp]: "length long_collection = 25"
  by (simp add: long_collection_def)

lemma returning_session_simps [simp]:
  "messages returning_session = None"
  "session_id returning_session = Some ''session-a''"
  "current_session_id e returning_session = ''session-a''"
  by (simp_all add: returning_session_def current_session_id_def)

lemma load_messages_token_usage:
  "load_messages sid (map (\<lambda>d. d\<lparr>token_usage := u d\<rparr>) coll) = load_messages sid coll"
  by (rule load_messages_map) simp_all

lemma load_messages_created_at:
  assumes "\<forall>a b. g a \<le> g b \<longleftrightarrow> a \<le> b"
  shows "load_messages sid (map (\<lambda>d. d\<lparr>created_at := g (created_at d)\<rparr>) coll) = load_messages sid coll"
  by (rule load_messages_map) (simp_all add: assms)

lemma app_1_rehydrates:
  assumes "secrets e ''OPENAI_API_KEY'' \<noteq> None" "secrets e ''MONGODB_URI'' \<noteq> None"
    "mongo_reachable e" "messages s = None" "\<not> truthy (chat_input e)"
  shows "messages (session (app_1 e s coll)) = Some (load_messages (current_session_id e s) coll)"
    and "buffer (session (app_1 e s coll)) = load_messages (current_session_id e s) coll"
    and "collection (app_1 e s coll) = coll"
    and "session_id (session (app_1 e s coll)) = Some (current_session_id e s)"
    and "trace (app_1 e s coll) =
           [Title, Caption, Find (current_session_id e s)] @
           display_history (load_messages (current_session_id e s) coll) @ footer"
  using assms by (simp_all add: app_1_idle initial_buffer_def)

lemma strip_ok [simp]: "strip ''ok'' = ''ok''"
  by (simp add: strip_def isspace_def)

lemma length_load_messages:
  "length (load_messages sid coll) = length (filter (\<lambda>d. doc_session_id d = sid) coll)"
  by (simp add: load_messages_def find_sorted_def)

lemma find_sorted_sorted: "sorted (map created_at (find_sorted sid coll))"
  by (simp add: find_sorted_def)

lemma find_sorted_count:
  "count_list (find_sorted sid coll) d = count_list (filter (\<lambda>d. doc_session_id d = sid) coll) d"
  by (simp add: find_sorted_def count_list_sort_key)

lemma app_1_completed_turn:
  assumes k: "secrets e ''OPENAI_API_KEY'' \<noteq> None" "secrets e ''MONGODB_URI'' \<noteq> None" "mongo_reachable e"
    and inp: "chat_input e = Some inp" "inp \<noteq> []" and l: "length inp \<le> 2000"
    and c: "openai_create e (build_messages SYSTEM_PROMPT_1
                      (initial_buffer e s coll @ [\<lparr>role = ''user'', content = inp\<rparr>]))
               = ChatCompletion c t"
    and sc: "strip c \<noteq> []"
  shows "buffer (session (app_1 e s coll)) =
           trim_history (initial_buffer e s coll @
             [\<lparr>role = ''user'', content = inp\<rparr>, \<lparr>role = ''assistant'', content = strip c\<rparr>])"
    and "requests (trace (app_1 e s coll)) =
          [build_messages SYSTEM_PROMPT_1 (initial_buffer e s coll @ [\<lparr>role = ''user'', content = inp\<rparr>])]"
    and "collection (app_1 e s coll) =
           coll @ [new_document (current_session_id e s) (utcnow e 0) ''user'' inp None,
                   new_document (current_session_id e s) (utcnow e 1) ''assistant'' (strip c) (Some t)]"
    and "\<not> stopped (app_1 e s coll)"
  by (simp_all add: app_1_input [OF k inp app_1_turn_reply [OF l c sc]] split: option.splits)

lemma app_1_turn_after_rehydration:
  assumes k: "secrets e ''OPENAI_API_KEY'' \<noteq> None" "secrets e ''MONGODB_URI'' \<noteq> None" "mongo_reachable e"
    and m: "messages s = None" and i: "\<not> truthy (chat_input e)"
    and n: "length (filter (\<lambda>d. doc_session_id d = current_session_id e s) coll) = 25"
    and k2: "secrets e2 ''OPENAI_API_KEY'' \<noteq> None" "secrets e2 ''MONGODB_URI'' \<noteq> None" "mongo_reachable e2"
    and inp: "chat_input e2 = Some inp" "inp \<noteq> []" and l: "length inp \<le> 2000"
    and c: "openai_create e2 (build_messages SYSTEM_PROMPT_1
              (load_messages (current_session_id e s) coll @ [\<lparr>role = ''user'', content = inp\<rparr>]))
            = ChatCompletion c t"
    and sc: "strip c \<noteq> []"
  shows "buffer (session (app_1 e2 (session (app_1 e s coll)) (collection (app_1 e s coll)))) =
           drop 7 (load_messages (current_session_id e s) coll @
             [\<lparr>role = ''user'', content = inp\<rparr>, \<lparr>role = ''assistant'', content = strip c\<rparr>])"
    and "length (buffer (session (app_1 e2 (session (app_1 e s coll)) (collection (app_1 e s coll))))) = 20"
    and "requests (trace (app_1 e2 (session (app_1 e s coll)) (collection (app_1 e s coll)))) =
           [build_messages SYSTEM_PROMPT_1
              (load_messages (current_session_id e s) coll @ [\<lparr>role = ''user'', content = inp\<rparr>])]"
proof -
  let ?s1 = "session (app_1 e s coll)"
  let ?ld = "load_messages (current_session_id e s) coll"
  note r = app_1_rehydrates [OF k m i, of coll]
  have ib: "initial_buffer e2 ?s1 coll = ?ld"
    by (simp add: initial_buffer_def r(1))
  have c': "openai_create e2 (build_messages SYSTEM_PROMPT_1
              (initial_buffer e2 ?s1 coll @ [\<lparr>role = ''user'', content = inp\<rparr>])) = ChatCompletion c t"
    using c by (simp only: ib)
  note t = app_1_completed_turn [OF k2 inp l c' sc]
  have len: "length ?ld = 25"
    using n by (simp add: length_load_messages)
  have b: "buffer (session (app_1 e2 ?s1 coll)) =
      trim_history (?ld @ [\<lparr>role = ''user'', content = inp\<rparr>, \<lparr>role = ''assistant'', content = strip c\<rparr>])"
    using t(1) by (simp only: ib)
  have tr: "trim_history (?ld @ [\<lparr>role = ''user'', content = inp\<rparr>, \<lparr>role = ''assistant'', content = strip c\<rparr>]) =
      drop 7 (?ld @ [\<lparr>role = ''user'', content = inp\<rparr>, \<lparr>role = ''assistant'', content = strip c\<rparr>])"
    using len by (simp add: trim_history_def slice_last_def MAX_MESSAGES_def)
  show "buffer (session (app_1 e2 ?s1 (collection (app_1 e s coll)))) =
      drop 7 (?ld @ [\<lparr>role = ''user'', content = inp\<rparr>, \<lparr>role = ''assistant'', content = strip c\<rparr>])"
    using b tr by (simp add: r(3))
  then show "length (buffer (session (app_1 e2 ?s1 (collection (app_1 e s coll))))) = 20"
    using len by simp
  show "requests (trace (app_1 e2 ?s1 (collection (app_1 e s coll)))) =
      [build_messages SYSTEM_PROMPT_1 (?ld @ [\<lparr>role = ''user'', content = inp\<rparr>])]"
    using t(2) by (simp add: r(3) ib)
qed

lemma load_messages_long_collection:
  "load_messages ''session-a'' long_collection = long_history"
proof -
  have "sorted (map created_at long_collection)"
    by (simp add: long_collection_def numbered_document_def o_def sorted_map)
  then have "find_sorted ''session-a'' long_collection = long_collection"
    by (simp add: find_sorted_def long_collection_session sort_key_id_if_sorted)
  then show ?thesis
    by (simp add: load_messages_def long_collection_def long_history_def numbered_document_def
        numbered_message_def)
qed

subsection \<open>What the sorted query may return after a save\<close>

lemma same_documents_iff:
  "same_documents xs ys \<longleftrightarrow> (\<forall>d. count_list xs d = count_list ys d)"
proof
  assume a: "same_documents xs ys"
  show "\<forall>d. count_list xs d = count_list ys d"
  proof
    fix d
    show "count_list xs d = count_list ys d"
    proof (cases "d \<in> set (xs @ ys)")
      case True
      with a show ?thesis by (simp add: same_documents_def list_all_iff)
    next
      case False
      then show ?thesis by simp
    qed
  qed
next
  assume "\<forall>d. count_list xs d = count_list ys d"
  then show "same_documents xs ys" by (simp add: same_documents_def list_all_iff)
qed


lemma same_documents_set: "same_documents xs ys \<Longrightarrow> set xs = set ys"
proof -
  assume "same_documents xs ys"
  then have "\<And>d. (count_list xs d = 0) = (count_list ys d = 0)"
    by (simp add: same_documents_iff)
  then show ?thesis by (auto simp: count_list_0_iff)
qed


lemma find_sorted_is_result: "find_sort_result sid coll (find_sorted sid coll)"
  by (simp add: find_sort_result_def same_documents_iff find_sorted_sorted find_sorted_count)


lemma sorted_le_last:
  "sorted (map f xs) \<Longrightarrow> x \<in> set xs \<Longrightarrow> f x \<le> f (last xs)"
  by (induction xs) auto


lemma filter_save_message:
  "filter (\<lambda>d. doc_session_id d = sid) (save_message sid now r c tu coll) =
   filter (\<lambda>d. doc_session_id d = sid) coll @ [new_document sid now r c tu]"
  by (simp add: save_message_def new_document_def)


lemma result_after_save_set:
  assumes "find_sort_result sid (save_message sid now r c tu coll) res"
  shows "set res = insert (new_document sid now r c tu) (set (filter (\<lambda>d. doc_session_id d = sid) coll))"
proof -
  from assms have "same_documents res
      (filter (\<lambda>d. doc_session_id d = sid) coll @ [new_document sid now r c tu])"
    by (simp add: find_sort_result_def filter_save_message)
  from same_documents_set [OF this] show ?thesis
    by simp
qed

lemma result_after_save_member:
  assumes "find_sort_result sid (save_message sid now r c tu coll) res"
  shows "new_document sid now r c tu \<in> set res"
    and "\<lparr>role = r, content = c\<rparr> \<in> set (map (\<lambda>d. \<lparr>role = doc_role d, content = doc_content d\<rparr>) res)"
proof -
  show m: "new_document sid now r c tu \<in> set res"
    by (simp add: result_after_save_set [OF assms])
  have "\<lparr>role = doc_role (new_document sid now r c tu),
         content = doc_content (new_document sid now r c tu)\<rparr>
      \<in> (\<lambda>d. \<lparr>role = doc_role d, content = doc_content d\<rparr>) ` set res"
    using m by (rule imageI)
  then show "\<lparr>role = r, content = c\<rparr> \<in> set (map (\<lambda>d. \<lparr>role = doc_role d, content = doc_content d\<rparr>) res)"
    by (simp add: new_document_def)
qed

lemma result_after_save_bound:
  assumes "find_sort_result sid (save_message sid now r c tu coll) res"
    and "\<forall>d \<in> set coll. doc_session_id d = sid \<longrightarrow> created_at d \<le> now"
  shows "\<forall>d \<in> set res. created_at d \<le> created_at (new_document sid now r c tu)"
  using assms(2) by (auto simp: result_after_save_set [OF assms(1)] new_document_def)

lemma result_after_save_last:
  assumes res: "find_sort_result sid (save_message sid now r c tu coll) res"
    and lt: "\<forall>d \<in> set coll. doc_session_id d = sid \<longrightarrow> created_at d < now"
  shows "last res = new_document sid now r c tu"
    and "res = butlast res @ [new_document sid now r c tu]"
    and "find_sort_result sid coll (butlast res)"
    and "map (\<lambda>d. \<lparr>role = doc_role d, content = doc_content d\<rparr>) res =
         map (\<lambda>d. \<lparr>role = doc_role d, content = doc_content d\<rparr>) (butlast res) @ [\<lparr>role = r, content = c\<rparr>]"
proof -
  let ?new = "new_document sid now r c tu"
  let ?F = "filter (\<lambda>d. doc_session_id d = sid) coll"
  define bl where "bl = butlast res"
  from res have so: "sorted (map created_at res)"
    and cnt: "\<And>d. count_list res d = count_list (?F @ [?new]) d"
    by (simp_all add: find_sort_result_def same_documents_iff filter_save_message)
  note st = result_after_save_set [OF res]
  then have ne: "res \<noteq> []" and m: "?new \<in> set res" by auto
  from ne have "last res \<in> set res" by simp
  with st have "last res \<in> set ?F \<or> last res = ?new" by auto
  moreover have "created_at ?new \<le> created_at (last res)"
    using so m by (rule sorted_le_last)
  moreover have "created_at ?new = now" by (simp add: new_document_def)
  ultimately show l: "last res = ?new"
    using lt by auto
  have "butlast res @ [last res] = res"
    using ne by (rule append_butlast_last_id)
  then have eq: "res = bl @ [?new]"
    by (simp only: l bl_def)
  then show "res = butlast res @ [?new]"
    by (simp only: bl_def)
  have "sorted (map created_at bl @ [created_at ?new])"
    using so by (simp only: eq map_append list.map)
  then have sb: "sorted (map created_at bl)"
    by (simp add: sorted_append)
  have "count_list bl d = count_list ?F d" for d
    using cnt [of d] by (simp add: eq)
  with sb have "find_sort_result sid coll bl"
    by (simp add: find_sort_result_def same_documents_iff)
  then show "find_sort_result sid coll (butlast res)"
    by (simp only: bl_def)
  have "map (\<lambda>d. \<lparr>role = doc_role d, content = doc_content d\<rparr>) res =
         map (\<lambda>d. \<lparr>role = doc_role d, content = doc_content d\<rparr>) bl @ [\<lparr>role = r, content = c\<rparr>]"
    by (simp add: eq new_document_def)
  then show "map (\<lambda>d. \<lparr>role = doc_role d, content = doc_content d\<rparr>) res =
         map (\<lambda>d. \<lparr>role = doc_role d, content = doc_content d\<rparr>) (butlast res) @ [\<lparr>role = r, content = c\<rparr>]"
    by (simp only: bl_def)
qed

lemma demo_env_raising_simps [simp]:
  "st_secrets demo_env_no_secrets = None"
  "secrets demo_env_no_secrets k = None"
  "st_secrets demo_env_bad_uri \<noteq> None"
  "secrets demo_env_bad_uri ''OPENAI_API_KEY'' = Some ''sk-demo''"
  "secrets demo_env_bad_uri ''MONGODB_URI'' = Some ''mongodb://demo''"
  "mongo demo_env_bad_uri = OtherMongoError"
  "\<not> mongo_reachable demo_env_bad_uri"
  "st_secrets (demo_env_without k) \<noteq> None"
  "st_secrets demo_env_offline \<noteq> None"
  "mongo demo_env_offline = ConnectionFailure"
  by (simp_all add: demo_env_no_secrets_def demo_env_bad_uri_def demo_env_without_def
        demo_env_offline_def demo_env_def demo_secrets_def secrets_def mongo_reachable_def)

lemma app_start_up_no_turn:
  assumes "secrets e ''OPENAI_API_KEY'' = None"
  shows "stopped (app e s)" and "session (app e s) = s" and "requests (trace (app e s)) = []"
    and "chat_messages (trace (app e s)) = []"
  by (simp_all add: app_start_up_failure [OF assms])

lemma app_1_start_up_no_turn:
  assumes "secrets e ''OPENAI_API_KEY'' = None \<or> secrets e ''MONGODB_URI'' = None \<or> \<not> mongo_reachable e"
  shows "stopped (app_1 e s coll)" and "session (app_1 e s coll) = s"
    and "collection (app_1 e s coll) = coll" and "requests (trace (app_1 e s coll)) = []"
    and "inserts (trace (app_1 e s coll)) = []" and "chat_messages (trace (app_1 e s coll)) = []"
  by (simp_all add: app_1_start_up_failure [OF assms])

lemma app_1_start_up_error:
  assumes "st_secrets e \<noteq> None"
    and "secrets e ''OPENAI_API_KEY'' = None \<or> secrets e ''MONGODB_URI'' = None \<or>
         mongo e = ConnectionFailure"
  shows "app_1 e s coll =
        \<lparr>session = s,
         trace = [Error (if secrets e ''OPENAI_API_KEY'' = None
                         then ''Missing required secret: OPENAI_API_KEY''
                         else if secrets e ''MONGODB_URI'' = None
                         then ''Missing required secret: MONGODB_URI''
                         else ''Database connection failed.'')],
         stopped = True, raised = False, collection = coll\<rparr>"
proof -
  from assms(2) have "secrets e ''OPENAI_API_KEY'' = None \<or> secrets e ''MONGODB_URI'' = None \<or>
      \<not> mongo_reachable e"
    by (auto simp: mongo_reachable_def)
  from app_1_start_up_failure [OF this, of s coll] assms show ?thesis
    by auto
qed

lemma app_1_start_up_raises:
  assumes "st_secrets e = None \<or>
     (secrets e ''OPENAI_API_KEY'' \<noteq> None \<and> secrets e ''MONGODB_URI'' \<noteq> None \<and>
      mongo e = OtherMongoError)"
  shows "app_1 e s coll = \<lparr>session = s, trace = [], stopped = True, raised = True, collection = coll\<rparr>"
  using assms by (auto simp: app_1_no_secrets_file app_1_connection_raises)

lemma long_collection_earlier:
  "\<forall>d \<in> set long_collection. doc_session_id d = ''session-a'' \<longrightarrow> created_at d < 1000"
  by (simp add: long_collection_def numbered_document_def)

section \<open>Claims\<close>

text \<open>
  C1. Whatever the buffer holds, after \<^verbatim>\<open>trim_history\<close> it has at most
  \<open>MAX_MESSAGES = 20\<close> entries. A longer buffer is cut to exactly its last 20 entries, in
  their order (the entries dropped are the oldest ones); a buffer of at most 20 entries is
  left as it is. Every execution of either script that handles a submitted input to the end
  (where \<^verbatim>\<open>trim_history\<close> is the last step) leaves a buffer of at most 20 entries.
\<close>

theorem trim_history_keeps_most_recent:
  "length (trim_history ms) \<le> MAX_MESSAGES \<and> MAX_MESSAGES = 20 \<and>
   (length ms > MAX_MESSAGES \<longrightarrow>
      trim_history ms = drop (length ms - MAX_MESSAGES) ms \<and>
      length (trim_history ms) = MAX_MESSAGES \<and>
      take (length ms - MAX_MESSAGES) ms @ trim_history ms = ms) \<and>
   (length ms \<le> MAX_MESSAGES \<longrightarrow> trim_history ms = ms) \<and>
   (truthy (chat_input e) \<and> \<not> stopped (app e s) \<longrightarrow>
      length (buffer (session (app e s))) \<le> MAX_MESSAGES) \<and>
   (truthy (chat_input e) \<and> \<not> stopped (app_1 e s coll) \<longrightarrow>
      length (buffer (session (app_1 e s coll))) \<le> MAX_MESSAGES)"
proof -
  have "length (trim_history ms) \<le> MAX_MESSAGES"
    by (rule trim_history_le)
  moreover have "MAX_MESSAGES = 20"
    by (simp add: MAX_MESSAGES_def)
  moreover have "length ms > MAX_MESSAGES \<longrightarrow>
      trim_history ms = drop (length ms - MAX_MESSAGES) ms \<and>
      length (trim_history ms) = MAX_MESSAGES \<and>
      take (length ms - MAX_MESSAGES) ms @ trim_history ms = ms"
    by (simp add: trim_history_def slice_last_def MAX_MESSAGES_def)
  moreover have "length ms \<le> MAX_MESSAGES \<longrightarrow> trim_history ms = ms"
    by (simp add: trim_history_def)
  ultimately show ?thesis
    using app_buffer_bounded [of e s] app_1_buffer_bounded [of e s coll] by blast
qed

theorem trim_history_keeps_most_recent_witness:
  "MAX_MESSAGES < length long_history \<and>
   trim_history long_history = drop 5 long_history \<and>
   length (trim_history long_history) = 20 \<and>
   length [numbered_message 0] \<le> MAX_MESSAGES \<and>
   trim_history [numbered_message 0] = [numbered_message 0] \<and>
   truthy (chat_input (demo_env (Some ''hello'') (ChatCompletion ''ok'' 3))) \<and>
   \<not> stopped (app (demo_env (Some ''hello'') (ChatCompletion ''ok'' 3)) (session_with long_history)) \<and>
   length (buffer (session (app (demo_env (Some ''hello'') (ChatCompletion ''ok'' 3))
                 (session_with long_history)))) \<le> 20 \<and>
   \<not> stopped (app_1 (demo_env (Some ''hello'') (ChatCompletion ''ok'' 3))
                 (session_with long_history) []) \<and>
   length (buffer (session (app_1 (demo_env (Some ''hello'') (ChatCompletion ''ok'' 3))
                 (session_with long_history) []))) \<le> 20"
proof -
  let ?e = "demo_env (Some ''hello'') (ChatCompletion ''ok'' 3)"
  let ?s = "session_with long_history"
  note long = trim_history_keeps_most_recent [of long_history ?e ?s "[]"]
  note short = trim_history_keeps_most_recent [of "[numbered_message 0]" ?e ?s "[]"]
  have a: "MAX_MESSAGES < length long_history"
    by (simp add: MAX_MESSAGES_def)
  have b: "length [numbered_message 0] \<le> MAX_MESSAGES"
    by (simp add: MAX_MESSAGES_def)
  have c: "truthy (chat_input ?e)"
    by simp
  have d: "\<not> stopped (app ?e ?s)"
    by (simp add: app_stopped_iff)
  have d1: "\<not> stopped (app_1 ?e ?s [])"
    by (simp add: app_1_stopped_iff)
  from long a have "trim_history long_history = drop (length long_history - MAX_MESSAGES) long_history"
    by blast
  then have f: "trim_history long_history = drop 5 long_history"
    by (simp add: MAX_MESSAGES_def)
  from long a have "length (trim_history long_history) = MAX_MESSAGES"
    by blast
  then have g: "length (trim_history long_history) = 20"
    by (simp add: MAX_MESSAGES_def)
  from short b have h: "trim_history [numbered_message 0] = [numbered_message 0]"
    by blast
  from long c d have "length (buffer (session (app ?e ?s))) \<le> MAX_MESSAGES"
    by blast
  then have i: "length (buffer (session (app ?e ?s))) \<le> 20"
    by (simp add: MAX_MESSAGES_def)
  from long c d1 have "length (buffer (session (app_1 ?e ?s []))) \<le> MAX_MESSAGES"
    by blast
  then have j: "length (buffer (session (app_1 ?e ?s []))) \<le> 20"
    by (simp add: MAX_MESSAGES_def)
  from a b c d d1 f g h i j show ?thesis
    by blast
qed

text \<open>
  C2. The request built by \<^verbatim>\<open>build_messages\<close> is the system message (role
  \<open>system\<close>, the fixed prompt as content) followed by the buffer, entry by entry, so it has
  one entry more than the buffer. In an execution that handles a submitted input to the end,
  exactly this list, built from the buffer with the user's message appended, is sent to the
  completion endpoint, and the buffer the execution leaves is that same buffer (plus the
  reply, if any) after trimming: building the request changed nothing. No execution of
  either script puts a message of role \<open>system\<close> into the buffer or the collection.
\<close>

theorem build_messages_prepends_system_prompt:
  "build_messages p ms = \<lparr>role = ''system'', content = p\<rparr> # ms \<and>
   length (build_messages p ms) = length ms + 1 \<and>
   role (build_messages p ms ! 0) = ''system'' \<and>
   content (build_messages p ms ! 0) = p \<and>
   drop 1 (build_messages p ms) = ms \<and>
   (truthy (chat_input e) \<and> \<not> stopped (app e s) \<longrightarrow>
      (\<exists>inp. chat_input e = Some inp \<and>
         requests (trace (app e s)) =
           [build_messages SYSTEM_PROMPT (buffer s @ [\<lparr>role = ''user'', content = inp\<rparr>])] \<and>
         (buffer (session (app e s)) =
            trim_history (buffer s @ [\<lparr>role = ''user'', content = inp\<rparr>]) \<or>
          (\<exists>r. buffer (session (app e s)) =
             trim_history (buffer s @
               [\<lparr>role = ''user'', content = inp\<rparr>, \<lparr>role = ''assistant'', content = r\<rparr>]))))) \<and>
   (truthy (chat_input e) \<and> \<not> stopped (app_1 e s coll) \<longrightarrow>
      (\<exists>inp. chat_input e = Some inp \<and>
         requests (trace (app_1 e s coll)) =
           [build_messages SYSTEM_PROMPT_1
              (initial_buffer e s coll @ [\<lparr>role = ''user'', content = inp\<rparr>])] \<and>
         (buffer (session (app_1 e s coll)) =
            trim_history (initial_buffer e s coll @ [\<lparr>role = ''user'', content = inp\<rparr>]) \<or>
          (\<exists>r. buffer (session (app_1 e s coll)) =
             trim_history (initial_buffer e s coll @
               [\<lparr>role = ''user'', content = inp\<rparr>, \<lparr>role = ''assistant'', content = r\<rparr>]))))) \<and>
   ((\<forall>m \<in> set (buffer s). role m \<noteq> ''system'') \<longrightarrow>
      (\<forall>m \<in> set (buffer (session (app e s))). role m \<noteq> ''system'')) \<and>
   ((\<forall>m \<in> set (buffer s). role m \<noteq> ''system'') \<and> (\<forall>d \<in> set coll. doc_role d \<noteq> ''system'') \<longrightarrow>
      (\<forall>m \<in> set (buffer (session (app_1 e s coll))). role m \<noteq> ''system'') \<and>
      (\<forall>d \<in> set (collection (app_1 e s coll)). doc_role d \<noteq> ''system''))"
proof -
  have "build_messages p ms = \<lparr>role = ''system'', content = p\<rparr> # ms"
    and "length (build_messages p ms) = length ms + 1"
    and "role (build_messages p ms ! 0) = ''system''"
    and "content (build_messages p ms ! 0) = p"
    and "drop 1 (build_messages p ms) = ms"
    by (simp_all add: build_messages_def)
  then show ?thesis
    using app_handled [of e s] app_1_handled [of e s coll] app_no_system [of s e]
      app_1_no_system [of s coll e]
    by blast
qed

theorem build_messages_prepends_system_prompt_witness:
  "truthy (chat_input (demo_env (Some ''hello'') (ChatCompletion ''ok'' 3))) \<and>
   \<not> stopped (app (demo_env (Some ''hello'') (ChatCompletion ''ok'' 3)) (session_with long_history)) \<and>
   \<not> stopped (app_1 (demo_env (Some ''hello'') (ChatCompletion ''ok'' 3))
                (session_with long_history) long_collection) \<and>
   list_all (\<lambda>m. role m \<noteq> ''system'') (buffer (session_with long_history)) \<and>
   list_all (\<lambda>d. doc_role d \<noteq> ''system'') long_collection \<and>
   requests (trace (app (demo_env (Some ''hello'') (ChatCompletion ''ok'' 3)) (session_with long_history))) =
     [\<lparr>role = ''system'', content = SYSTEM_PROMPT\<rparr> #
        long_history @ [\<lparr>role = ''user'', content = ''hello''\<rparr>]] \<and>
   requests (trace (app_1 (demo_env (Some ''hello'') (ChatCompletion ''ok'' 3))
                (session_with long_history) long_collection)) =
     [\<lparr>role = ''system'', content = SYSTEM_PROMPT_1\<rparr> #
        long_history @ [\<lparr>role = ''user'', content = ''hello''\<rparr>]] \<and>
   list_all (\<lambda>m. role m \<noteq> ''system'')
     (buffer (session (app (demo_env (Some ''hello'') (ChatCompletion ''ok'' 3))
                (session_with long_history)))) \<and>
   list_all (\<lambda>m. role m \<noteq> ''system'')
     (buffer (session (app_1 (demo_env (Some ''hello'') (ChatCompletion ''ok'' 3))
                (session_with long_history) long_collection))) \<and>
   list_all (\<lambda>d. doc_role d \<noteq> ''system'')
     (collection (app_1 (demo_env (Some ''hello'') (ChatCompletion ''ok'' 3))
                (session_with long_history) long_collection))"
proof -
  let ?e = "demo_env (Some ''hello'') (ChatCompletion ''ok'' 3)"
  let ?s = "session_with long_history"
  note w = build_messages_prepends_system_prompt [of SYSTEM_PROMPT long_history ?e ?s long_collection]
  have a: "truthy (chat_input ?e)"
    by simp
  have b: "\<not> stopped (app ?e ?s)"
    by (simp add: app_stopped_iff)
  have c: "\<not> stopped (app_1 ?e ?s long_collection)"
    by (simp add: app_1_stopped_iff)
  have d: "\<forall>m \<in> set (buffer ?s). role m \<noteq> ''system''"
    using long_history_no_system by simp
  note d1 = long_collection_no_system
  from w a b have "requests (trace (app ?e ?s)) =
      [build_messages SYSTEM_PROMPT (long_history @ [\<lparr>role = ''user'', content = ''hello''\<rparr>])]"
    by auto
  then have f: "requests (trace (app ?e ?s)) =
     [\<lparr>role = ''system'', content = SYSTEM_PROMPT\<rparr> #
        long_history @ [\<lparr>role = ''user'', content = ''hello''\<rparr>]]"
    by (simp add: build_messages_def)
  from w a c have "requests (trace (app_1 ?e ?s long_collection)) =
      [build_messages SYSTEM_PROMPT_1 (long_history @ [\<lparr>role = ''user'', content = ''hello''\<rparr>])]"
    by auto
  then have g: "requests (trace (app_1 ?e ?s long_collection)) =
     [\<lparr>role = ''system'', content = SYSTEM_PROMPT_1\<rparr> #
        long_history @ [\<lparr>role = ''user'', content = ''hello''\<rparr>]]"
    by (simp add: build_messages_def)
  from w d have h: "\<forall>m \<in> set (buffer (session (app ?e ?s))). role m \<noteq> ''system''"
    by blast
  from w d d1 have i: "(\<forall>m \<in> set (buffer (session (app_1 ?e ?s long_collection))). role m \<noteq> ''system'') \<and>
      (\<forall>d \<in> set (collection (app_1 ?e ?s long_collection)). doc_role d \<noteq> ''system'')"
    by blast
  from a b c d d1 f g h i show ?thesis
    by (simp only: list_all_iff) blast
qed

text \<open>
  C4. When the submitted input has more than 2000 characters, the execution stops at the
  length check: the buffer is the one the session had (in \<^verbatim>\<open>app_1.py\<close>: the one the
  session-management section set up, which is the stored buffer when there is one), no
  request is sent, and in \<^verbatim>\<open>app_1.py\<close> the collection is unchanged and nothing is
  inserted. When the script got past its start-up checks the one error shown is the
  input-too-long message.
\<close>

theorem input_too_long_rejected:
  "chat_input e = Some inp \<and> 2000 < length inp \<longrightarrow>
     stopped (app e s) \<and>
     buffer (session (app e s)) = buffer s \<and>
     length (buffer (session (app e s))) = length (buffer s) \<and>
     requests (trace (app e s)) = [] \<and>
     (secrets e ''OPENAI_API_KEY'' \<noteq> None \<longrightarrow>
        messages (session (app e s)) = Some (buffer s) \<and>
        error_texts (trace (app e s)) = [''Input too long. Please shorten your message.'']) \<and>
     stopped (app_1 e s coll) \<and>
     collection (app_1 e s coll) = coll \<and>
     inserts (trace (app_1 e s coll)) = [] \<and>
     requests (trace (app_1 e s coll)) = [] \<and>
     (messages s \<noteq> None \<longrightarrow> messages (session (app_1 e s coll)) = messages s) \<and>
     (secrets e ''OPENAI_API_KEY'' \<noteq> None \<and> secrets e ''MONGODB_URI'' \<noteq> None \<and> mongo_reachable e \<longrightarrow>
        messages (session (app_1 e s coll)) = Some (initial_buffer e s coll) \<and>
        error_texts (trace (app_1 e s coll)) = [''Input too long. Please shorten your message.''])"
proof (intro impI, elim conjE)
  assume inp: "chat_input e = Some inp" and l: "2000 < length inp"
  then have ne: "inp \<noteq> []" by auto
  have A: "stopped (app e s) \<and> buffer (session (app e s)) = buffer s \<and>
     length (buffer (session (app e s))) = length (buffer s) \<and>
     requests (trace (app e s)) = [] \<and>
     (secrets e ''OPENAI_API_KEY'' \<noteq> None \<longrightarrow>
        messages (session (app e s)) = Some (buffer s) \<and>
        error_texts (trace (app e s)) = [''Input too long. Please shorten your message.''])"
  proof (cases rule: app_cases [of e s])
    case (no_key tr r)
    then show ?thesis by auto
  next
    case idle
    with inp ne show ?thesis by simp
  next
    case (turn inp' ms' evs halt)
    with inp app_turn_too_long [OF l, of e "buffer s"] show ?thesis by auto
  qed
  have B: "stopped (app_1 e s coll) \<and> collection (app_1 e s coll) = coll \<and>
     inserts (trace (app_1 e s coll)) = [] \<and> requests (trace (app_1 e s coll)) = [] \<and>
     (messages s \<noteq> None \<longrightarrow> messages (session (app_1 e s coll)) = messages s) \<and>
     (secrets e ''OPENAI_API_KEY'' \<noteq> None \<and> secrets e ''MONGODB_URI'' \<noteq> None \<and> mongo_reachable e \<longrightarrow>
        messages (session (app_1 e s coll)) = Some (initial_buffer e s coll) \<and>
        error_texts (trace (app_1 e s coll)) = [''Input too long. Please shorten your message.''])"
  proof (cases rule: app_1_cases [of e s coll])
    case (halted tr r)
    then show ?thesis by auto
  next
    case idle
    with inp ne show ?thesis by simp
  next
    case (turn inp' ms' coll' evs halt)
    with inp app_1_turn_too_long [OF l, of e "current_session_id e s" "initial_buffer e s coll" coll]
    show ?thesis by (auto simp: initial_buffer_def split: option.splits)
  qed
  from A B show "stopped (app e s) \<and>
     buffer (session (app e s)) = buffer s \<and>
     length (buffer (session (app e s))) = length (buffer s) \<and>
     requests (trace (app e s)) = [] \<and>
     (secrets e ''OPENAI_API_KEY'' \<noteq> None \<longrightarrow>
        messages (session (app e s)) = Some (buffer s) \<and>
        error_texts (trace (app e s)) = [''Input too long. Please shorten your message.'']) \<and>
     stopped (app_1 e s coll) \<and>
     collection (app_1 e s coll) = coll \<and>
     inserts (trace (app_1 e s coll)) = [] \<and>
     requests (trace (app_1 e s coll)) = [] \<and>
     (messages s \<noteq> None \<longrightarrow> messages (session (app_1 e s coll)) = messages s) \<and>
     (secrets e ''OPENAI_API_KEY'' \<noteq> None \<and> secrets e ''MONGODB_URI'' \<noteq> None \<and> mongo_reachable e \<longrightarrow>
        messages (session (app_1 e s coll)) = Some (initial_buffer e s coll) \<and>
        error_texts (trace (app_1 e s coll)) = [''Input too long. Please shorten your message.''])"
    by blast
qed

theorem input_too_long_rejected_witness:
  "chat_input (demo_env (Some long_input) (ChatCompletion ''ok'' 3)) = Some long_input \<and>
   2000 < length long_input \<and>
   secrets (demo_env (Some long_input) (ChatCompletion ''ok'' 3)) ''OPENAI_API_KEY'' \<noteq> None \<and>
   secrets (demo_env (Some long_input) (ChatCompletion ''ok'' 3)) ''MONGODB_URI'' \<noteq> None \<and>
   mongo_reachable (demo_env (Some long_input) (ChatCompletion ''ok'' 3)) \<and>
   messages (session_with long_history) \<noteq> None \<and>
   messages (session (app (demo_env (Some long_input) (ChatCompletion ''ok'' 3))
      (session_with long_history))) = Some long_history \<and>
   error_texts (trace (app (demo_env (Some long_input) (ChatCompletion ''ok'' 3))
      (session_with long_history))) = [''Input too long. Please shorten your message.''] \<and>
   messages (session (app_1 (demo_env (Some long_input) (ChatCompletion ''ok'' 3))
      (session_with long_history) long_collection)) = Some long_history \<and>
   collection (app_1 (demo_env (Some long_input) (ChatCompletion ''ok'' 3))
      (session_with long_history) long_collection) = long_collection \<and>
   error_texts (trace (app_1 (demo_env (Some long_input) (ChatCompletion ''ok'' 3))
      (session_with long_history) long_collection)) = [''Input too long. Please shorten your message.'']"
proof -
  let ?e = "demo_env (Some long_input) (ChatCompletion ''ok'' 3)"
  let ?s = "session_with long_history"
  note w = input_too_long_rejected [of ?e long_input ?s long_collection]
  have a: "chat_input ?e = Some long_input \<and> 2000 < length long_input"
    by simp
  have b: "secrets ?e ''OPENAI_API_KEY'' \<noteq> None"
    and c: "secrets ?e ''MONGODB_URI'' \<noteq> None" and d: "mongo_reachable ?e"
    and f: "messages ?s \<noteq> None"
    by simp_all
  from w a b have "messages (session (app ?e ?s)) = Some (buffer ?s)"
    by blast
  then have g: "messages (session (app ?e ?s)) = Some long_history"
    by simp
  from w a b have h: "error_texts (trace (app ?e ?s)) = [''Input too long. Please shorten your message.'']"
    by blast
  from w a f have "messages (session (app_1 ?e ?s long_collection)) = messages ?s"
    by blast
  then have i: "messages (session (app_1 ?e ?s long_collection)) = Some long_history"
    by simp
  from w a have j: "collection (app_1 ?e ?s long_collection) = long_collection"
    by blast
  from w a b c d have k: "error_texts (trace (app_1 ?e ?s long_collection)) =
      [''Input too long. Please shorten your message.'']"
    by blast
  from a b c d f g h i j k show ?thesis
    by blast
qed

text \<open>
  C3. In an execution that handles a submitted input of at most 2000 characters and in
  which the completion call fails (rate limit, timeout or any other exception), the buffer
  left behind is the previous buffer with the user's message appended, trimmed; the user's
  message is its last entry, so no assistant message was appended. Exactly one error is
  shown, whose text depends on the kind of failure (three different texts in each script),
  exactly one request was sent (no retry), the only new chat message displayed is the
  user's, and the execution is not stopped. In \<^verbatim>\<open>app_1.py\<close> the collection has
  gained the user's document and nothing else.
\<close>

theorem provider_failure_keeps_user_message:
  "(secrets e ''OPENAI_API_KEY'' \<noteq> None \<and> chat_input e = Some inp \<and> inp \<noteq> [] \<and> length inp \<le> 2000 \<and>
    (\<forall>c t. openai_create e (build_messages SYSTEM_PROMPT (buffer s @ [\<lparr>role = ''user'', content = inp\<rparr>]))
              \<noteq> ChatCompletion c t) \<longrightarrow>
      buffer (session (app e s)) = trim_history (buffer s @ [\<lparr>role = ''user'', content = inp\<rparr>]) \<and>
      buffer (session (app e s)) \<noteq> [] \<and>
      last (buffer (session (app e s))) = \<lparr>role = ''user'', content = inp\<rparr> \<and>
      error_texts (trace (app e s)) =
        [case openai_create e (build_messages SYSTEM_PROMPT (buffer s @ [\<lparr>role = ''user'', content = inp\<rparr>])) of
           RateLimitError \<Rightarrow> ''Too many requests. Please wait a moment and try again.''
         | Timeout \<Rightarrow> ''Request timed out. Please try again.''
         | _ \<Rightarrow> ''AI service temporarily unavailable.''] \<and>
      requests (trace (app e s)) =
        [build_messages SYSTEM_PROMPT (buffer s @ [\<lparr>role = ''user'', content = inp\<rparr>])] \<and>
      chat_messages (trace (app e s)) = map (\<lambda>m. (role m, content m)) (buffer s) @ [(''user'', inp)] \<and>
      \<not> stopped (app e s)) \<and>
   (secrets e ''OPENAI_API_KEY'' \<noteq> None \<and> secrets e ''MONGODB_URI'' \<noteq> None \<and> mongo_reachable e \<and>
    chat_input e = Some inp \<and> inp \<noteq> [] \<and> length inp \<le> 2000 \<and>
    (\<forall>c t. openai_create e (build_messages SYSTEM_PROMPT_1
               (initial_buffer e s coll @ [\<lparr>role = ''user'', content = inp\<rparr>]))
              \<noteq> ChatCompletion c t) \<longrightarrow>
      buffer (session (app_1 e s coll)) =
        trim_history (initial_buffer e s coll @ [\<lparr>role = ''user'', content = inp\<rparr>]) \<and>
      buffer (session (app_1 e s coll)) \<noteq> [] \<and>
      last (buffer (session (app_1 e s coll))) = \<lparr>role = ''user'', content = inp\<rparr> \<and>
      error_texts (trace (app_1 e s coll)) =
        [case openai_create e (build_messages SYSTEM_PROMPT_1
                 (initial_buffer e s coll @ [\<lparr>role = ''user'', content = inp\<rparr>])) of
           RateLimitError \<Rightarrow> ''Too many requests. Please try again shortly.''
         | Timeout \<Rightarrow> ''Request timed out. Please try again.''
         | _ \<Rightarrow> ''AI service temporarily unavailable.''] \<and>
      requests (trace (app_1 e s coll)) =
        [build_messages SYSTEM_PROMPT_1 (initial_buffer e s coll @ [\<lparr>role = ''user'', content = inp\<rparr>])] \<and>
      chat_messages (trace (app_1 e s coll)) =
        map (\<lambda>m. (role m, content m)) (initial_buffer e s coll) @ [(''user'', inp)] \<and>
      collection (app_1 e s coll) =
        coll @ [new_document (current_session_id e s) (utcnow e 0) ''user'' inp None] \<and>
      inserts (trace (app_1 e s coll)) =
        [new_document (current_session_id e s) (utcnow e 0) ''user'' inp None] \<and>
      \<not> stopped (app_1 e s coll)) \<and>
   ''Too many requests. Please wait a moment and try again.'' \<noteq> ''Request timed out. Please try again.'' \<and>
   ''Too many requests. Please wait a moment and try again.'' \<noteq> ''AI service temporarily unavailable.'' \<and>
   ''Too many requests. Please try again shortly.'' \<noteq> ''Request timed out. Please try again.'' \<and>
   ''Too many requests. Please try again shortly.'' \<noteq> ''AI service temporarily unavailable.'' \<and>
   ''Request timed out. Please try again.'' \<noteq> ''AI service temporarily unavailable.''"
  by (intro conjI impI; (elim conjE)?)
     (rule app_provider_failure app_1_provider_failure failure_texts_distinct; assumption)+

theorem provider_failure_keeps_user_message_witness:
  "secrets (demo_env (Some ''hello'') RateLimitError) ''OPENAI_API_KEY'' \<noteq> None \<and>
   secrets (demo_env (Some ''hello'') RateLimitError) ''MONGODB_URI'' \<noteq> None \<and>
   mongo_reachable (demo_env (Some ''hello'') RateLimitError) \<and>
   chat_input (demo_env (Some ''hello'') RateLimitError) = Some ''hello'' \<and>
   length ''hello'' \<le> 2000 \<and>
   error_texts (trace (app (demo_env (Some ''hello'') RateLimitError) (session_with long_history))) =
     [''Too many requests. Please wait a moment and try again.''] \<and>
   error_texts (trace (app (demo_env (Some ''hello'') Timeout) (session_with long_history))) =
     [''Request timed out. Please try again.''] \<and>
   error_texts (trace (app (demo_env (Some ''hello'') OtherException) (session_with long_history))) =
     [''AI service temporarily unavailable.''] \<and>
   last (buffer (session (app (demo_env (Some ''hello'') RateLimitError) (session_with long_history)))) =
     \<lparr>role = ''user'', content = ''hello''\<rparr> \<and>
   error_texts (trace (app_1 (demo_env (Some ''hello'') RateLimitError) (session_with long_history)
     long_collection)) = [''Too many requests. Please try again shortly.''] \<and>
   error_texts (trace (app_1 (demo_env (Some ''hello'') Timeout) (session_with long_history)
     long_collection)) = [''Request timed out. Please try again.''] \<and>
   error_texts (trace (app_1 (demo_env (Some ''hello'') OtherException) (session_with long_history)
     long_collection)) = [''AI service temporarily unavailable.''] \<and>
   last (buffer (session (app_1 (demo_env (Some ''hello'') RateLimitError) (session_with long_history)
     long_collection))) = \<lparr>role = ''user'', content = ''hello''\<rparr> \<and>
   collection (app_1 (demo_env (Some ''hello'') RateLimitError) (session_with long_history)
     long_collection) = long_collection @ [new_document ''session-a'' 1000 ''user'' ''hello'' None]"
proof -
  let ?s = "session_with long_history"
  have hyp: "secrets (demo_env (Some ''hello'') f) ''OPENAI_API_KEY'' \<noteq> None \<and>
      chat_input (demo_env (Some ''hello'') f) = Some ''hello'' \<and> ''hello'' \<noteq> [] \<and>
      length ''hello'' \<le> 2000 \<and>
      (\<forall>c t. openai_create (demo_env (Some ''hello'') f)
          (build_messages SYSTEM_PROMPT (buffer ?s @ [\<lparr>role = ''user'', content = ''hello''\<rparr>]))
        \<noteq> ChatCompletion c t)"
    if "f = RateLimitError \<or> f = Timeout \<or> f = OtherException" for f
    using that by auto
  have hyp1: "secrets (demo_env (Some ''hello'') f) ''OPENAI_API_KEY'' \<noteq> None \<and>
      secrets (demo_env (Some ''hello'') f) ''MONGODB_URI'' \<noteq> None \<and>
      mongo_reachable (demo_env (Some ''hello'') f) \<and>
      chat_input (demo_env (Some ''hello'') f) = Some ''hello'' \<and> ''hello'' \<noteq> [] \<and>
      length ''hello'' \<le> 2000 \<and>
      (\<forall>c t. openai_create (demo_env (Some ''hello'') f)
          (build_messages SYSTEM_PROMPT_1
             (initial_buffer (demo_env (Some ''hello'') f) ?s long_collection @
                [\<lparr>role = ''user'', content = ''hello''\<rparr>]))
        \<noteq> ChatCompletion c t)"
    if "f = RateLimitError \<or> f = Timeout \<or> f = OtherException" for f
    using that by auto
  note a = provider_failure_keeps_user_message
             [of "demo_env (Some ''hello'') RateLimitError" "''hello''" ?s long_collection,
              THEN conjunct1, THEN mp, OF hyp]
  note b = provider_failure_keeps_user_message
             [of "demo_env (Some ''hello'') Timeout" "''hello''" ?s long_collection,
              THEN conjunct1, THEN mp, OF hyp]
  note c = provider_failure_keeps_user_message
             [of "demo_env (Some ''hello'') OtherException" "''hello''" ?s long_collection,
              THEN conjunct1, THEN mp, OF hyp]
  note a1 = provider_failure_keeps_user_message
             [of "demo_env (Some ''hello'') RateLimitError" "''hello''" ?s long_collection,
              THEN conjunct2, THEN conjunct1, THEN mp, OF hyp1]
  note b1 = provider_failure_keeps_user_message
             [of "demo_env (Some ''hello'') Timeout" "''hello''" ?s long_collection,
              THEN conjunct2, THEN conjunct1, THEN mp, OF hyp1]
  note c1 = provider_failure_keeps_user_message
             [of "demo_env (Some ''hello'') OtherException" "''hello''" ?s long_collection,
              THEN conjunct2, THEN conjunct1, THEN mp, OF hyp1]
  have h: "secrets (demo_env (Some ''hello'') RateLimitError) ''OPENAI_API_KEY'' \<noteq> None"
    "secrets (demo_env (Some ''hello'') RateLimitError) ''MONGODB_URI'' \<noteq> None"
    "mongo_reachable (demo_env (Some ''hello'') RateLimitError)"
    "chat_input (demo_env (Some ''hello'') RateLimitError) = Some ''hello''"
    "length ''hello'' \<le> 2000"
    by simp_all
  have r1: "error_texts (trace (app (demo_env (Some ''hello'') RateLimitError) ?s)) =
     [''Too many requests. Please wait a moment and try again.'']"
    using a [THEN conjunct2, THEN conjunct2, THEN conjunct2, THEN conjunct1] by simp
  have r2: "error_texts (trace (app (demo_env (Some ''hello'') Timeout) ?s)) =
     [''Request timed out. Please try again.'']"
    using b [THEN conjunct2, THEN conjunct2, THEN conjunct2, THEN conjunct1] by simp
  have r3: "error_texts (trace (app (demo_env (Some ''hello'') OtherException) ?s)) =
     [''AI service temporarily unavailable.'']"
    using c [THEN conjunct2, THEN conjunct2, THEN conjunct2, THEN conjunct1] by simp
  have r4: "last (buffer (session (app (demo_env (Some ''hello'') RateLimitError) ?s))) =
     \<lparr>role = ''user'', content = ''hello''\<rparr>"
    using a [THEN conjunct2, THEN conjunct2, THEN conjunct1] by simp
  have q1: "error_texts (trace (app_1 (demo_env (Some ''hello'') RateLimitError) ?s long_collection)) =
     [''Too many requests. Please try again shortly.'']"
    using a1 [THEN conjunct2, THEN conjunct2, THEN conjunct2, THEN conjunct1] by simp
  have q2: "error_texts (trace (app_1 (demo_env (Some ''hello'') Timeout) ?s long_collection)) =
     [''Request timed out. Please try again.'']"
    using b1 [THEN conjunct2, THEN conjunct2, THEN conjunct2, THEN conjunct1] by simp
  have q3: "error_texts (trace (app_1 (demo_env (Some ''hello'') OtherException) ?s long_collection)) =
     [''AI service temporarily unavailable.'']"
    using c1 [THEN conjunct2, THEN conjunct2, THEN conjunct2, THEN conjunct1] by simp
  have q4: "last (buffer (session (app_1 (demo_env (Some ''hello'') RateLimitError) ?s long_collection))) =
     \<lparr>role = ''user'', content = ''hello''\<rparr>"
    using a1 [THEN conjunct2, THEN conjunct2, THEN conjunct1] by simp
  have q5: "collection (app_1 (demo_env (Some ''hello'') RateLimitError) ?s long_collection) =
     long_collection @ [new_document ''session-a'' 1000 ''user'' ''hello'' None]"
    using a1 [THEN conjunct2, THEN conjunct2, THEN conjunct2, THEN conjunct2, THEN conjunct2,
              THEN conjunct2, THEN conjunct1] by simp
  from h r1 r2 r3 r4 q1 q2 q3 q4 q5 show ?thesis
    by (intro conjI)
qed

text \<open>
  C8. When the completion call succeeds but the returned content is whitespace only, the
  reply strips to the empty string, which is false in the \<^verbatim>\<open>if\<close> that guards the
  assistant side. The execution then leaves the previous buffer with only the user's
  message appended, trimmed; it displays no assistant message and, in \<^verbatim>\<open>app_1.py\<close>,
  inserts only the user's document. Session state, collection and displayed chat messages
  are the same as if the completion call had failed. No error is shown.
\<close>

theorem blank_reply_is_dropped:
  "(secrets e ''OPENAI_API_KEY'' \<noteq> None \<and> chat_input e = Some inp \<and> inp \<noteq> [] \<and> length inp \<le> 2000 \<and>
    openai_create e (build_messages SYSTEM_PROMPT (buffer s @ [\<lparr>role = ''user'', content = inp\<rparr>]))
      = ChatCompletion c t \<and>
    (\<forall>ch \<in> set c. isspace ch) \<longrightarrow>
      buffer (session (app e s)) = trim_history (buffer s @ [\<lparr>role = ''user'', content = inp\<rparr>]) \<and>
      last (buffer (session (app e s))) = \<lparr>role = ''user'', content = inp\<rparr> \<and>
      chat_messages (trace (app e s)) = map (\<lambda>m. (role m, content m)) (buffer s) @ [(''user'', inp)] \<and>
      error_texts (trace (app e s)) = [] \<and>
      \<not> stopped (app e s) \<and>
      session (app e s) = session (app (e\<lparr>openai_create := (\<lambda>_. OtherException)\<rparr>) s) \<and>
      chat_messages (trace (app e s)) =
        chat_messages (trace (app (e\<lparr>openai_create := (\<lambda>_. OtherException)\<rparr>) s))) \<and>
   (secrets e ''OPENAI_API_KEY'' \<noteq> None \<and> secrets e ''MONGODB_URI'' \<noteq> None \<and> mongo_reachable e \<and>
    chat_input e = Some inp \<and> inp \<noteq> [] \<and> length inp \<le> 2000 \<and>
    openai_create e (build_messages SYSTEM_PROMPT_1
        (initial_buffer e s coll @ [\<lparr>role = ''user'', content = inp\<rparr>])) = ChatCompletion c t \<and>
    (\<forall>ch \<in> set c. isspace ch) \<longrightarrow>
      buffer (session (app_1 e s coll)) =
        trim_history (initial_buffer e s coll @ [\<lparr>role = ''user'', content = inp\<rparr>]) \<and>
      last (buffer (session (app_1 e s coll))) = \<lparr>role = ''user'', content = inp\<rparr> \<and>
      chat_messages (trace (app_1 e s coll)) =
        map (\<lambda>m. (role m, content m)) (initial_buffer e s coll) @ [(''user'', inp)] \<and>
      error_texts (trace (app_1 e s coll)) = [] \<and>
      collection (app_1 e s coll) =
        coll @ [new_document (current_session_id e s) (utcnow e 0) ''user'' inp None] \<and>
      inserts (trace (app_1 e s coll)) =
        [new_document (current_session_id e s) (utcnow e 0) ''user'' inp None] \<and>
      \<not> stopped (app_1 e s coll) \<and>
      session (app_1 e s coll) = session (app_1 (e\<lparr>openai_create := (\<lambda>_. OtherException)\<rparr>) s coll) \<and>
      collection (app_1 e s coll) =
        collection (app_1 (e\<lparr>openai_create := (\<lambda>_. OtherException)\<rparr>) s coll) \<and>
      chat_messages (trace (app_1 e s coll)) =
        chat_messages (trace (app_1 (e\<lparr>openai_create := (\<lambda>_. OtherException)\<rparr>) s coll)))"
  by (intro conjI impI; (elim conjE)?)
     (rule app_blank_reply app_blank_like_failure app_1_blank_reply app_1_blank_like_failure;
      assumption)+

theorem blank_reply_is_dropped_witness:
  "secrets (demo_env (Some ''hello'') (ChatCompletion blank_reply 3)) ''OPENAI_API_KEY'' \<noteq> None \<and>
   secrets (demo_env (Some ''hello'') (ChatCompletion blank_reply 3)) ''MONGODB_URI'' \<noteq> None \<and>
   mongo_reachable (demo_env (Some ''hello'') (ChatCompletion blank_reply 3)) \<and>
   chat_input (demo_env (Some ''hello'') (ChatCompletion blank_reply 3)) = Some ''hello'' \<and>
   length ''hello'' \<le> 2000 \<and>
   list_all isspace blank_reply \<and>
   last (buffer (session (app (demo_env (Some ''hello'') (ChatCompletion blank_reply 3))
     (session_with long_history)))) = \<lparr>role = ''user'', content = ''hello''\<rparr> \<and>
   error_texts (trace (app (demo_env (Some ''hello'') (ChatCompletion blank_reply 3))
     (session_with long_history))) = [] \<and>
   last (buffer (session (app_1 (demo_env (Some ''hello'') (ChatCompletion blank_reply 3))
     (session_with long_history) long_collection))) = \<lparr>role = ''user'', content = ''hello''\<rparr> \<and>
   collection (app_1 (demo_env (Some ''hello'') (ChatCompletion blank_reply 3))
     (session_with long_history) long_collection) =
     long_collection @ [new_document ''session-a'' 1000 ''user'' ''hello'' None]"
proof -
  let ?e = "demo_env (Some ''hello'') (ChatCompletion blank_reply 3)"
  let ?s = "session_with long_history"
  have h: "secrets ?e ''OPENAI_API_KEY'' \<noteq> None" "secrets ?e ''MONGODB_URI'' \<noteq> None"
    "mongo_reachable ?e" "chat_input ?e = Some ''hello''" "length ''hello'' \<le> 2000"
    by simp_all
  note sp = blank_reply_isspace
  have hyp: "secrets ?e ''OPENAI_API_KEY'' \<noteq> None \<and> chat_input ?e = Some ''hello'' \<and>
      ''hello'' \<noteq> [] \<and> length ''hello'' \<le> 2000 \<and>
      openai_create ?e (build_messages SYSTEM_PROMPT (buffer ?s @ [\<lparr>role = ''user'', content = ''hello''\<rparr>]))
        = ChatCompletion blank_reply 3 \<and>
      (\<forall>ch \<in> set blank_reply. isspace ch)"
    using sp by simp
  have hyp1: "secrets ?e ''OPENAI_API_KEY'' \<noteq> None \<and> secrets ?e ''MONGODB_URI'' \<noteq> None \<and>
      mongo_reachable ?e \<and> chat_input ?e = Some ''hello'' \<and>
      ''hello'' \<noteq> [] \<and> length ''hello'' \<le> 2000 \<and>
      openai_create ?e (build_messages SYSTEM_PROMPT_1
          (initial_buffer ?e ?s long_collection @ [\<lparr>role = ''user'', content = ''hello''\<rparr>]))
        = ChatCompletion blank_reply 3 \<and>
      (\<forall>ch \<in> set blank_reply. isspace ch)"
    using sp by simp
  note a = blank_reply_is_dropped [of ?e "''hello''" ?s blank_reply 3 long_collection,
              THEN conjunct1, THEN mp, OF hyp]
  note a1 = blank_reply_is_dropped [of ?e "''hello''" ?s blank_reply 3 long_collection,
              THEN conjunct2, THEN mp, OF hyp1]
  have r1: "last (buffer (session (app ?e ?s))) = \<lparr>role = ''user'', content = ''hello''\<rparr>"
    using a [THEN conjunct2, THEN conjunct1] .
  have r2: "error_texts (trace (app ?e ?s)) = []"
    using a [THEN conjunct2, THEN conjunct2, THEN conjunct2, THEN conjunct1] .
  have q1: "last (buffer (session (app_1 ?e ?s long_collection))) =
      \<lparr>role = ''user'', content = ''hello''\<rparr>"
    using a1 [THEN conjunct2, THEN conjunct1] .
  have q2: "collection (app_1 ?e ?s long_collection) =
      long_collection @ [new_document ''session-a'' 1000 ''user'' ''hello'' None]"
    using a1 [THEN conjunct2, THEN conjunct2, THEN conjunct2, THEN conjunct2, THEN conjunct1]
    by simp
  from sp have sp': "list_all isspace blank_reply"
    by (simp only: list_all_iff)
  from h sp' r1 r2 q1 q2 show ?thesis
    by (intro conjI)
qed

text \<open>
  C9. In an execution of \<^verbatim>\<open>app_1.py\<close> that handles a submitted input of at most 2000
  characters, the user's document is inserted before the (only) request to the completion
  endpoint is sent: the insert, the display of the user's message and the request follow
  one another in the trace, with no earlier insert or request and no later request. When
  the completion call fails, the collection after the execution is the previous one plus
  that user document: no assistant document was inserted. No execution ever removes a
  document, so after any further executions the collection still starts with the previous
  documents followed by that user document.
\<close>

theorem user_document_inserted_before_request:
  "(secrets e ''OPENAI_API_KEY'' \<noteq> None \<and> secrets e ''MONGODB_URI'' \<noteq> None \<and> mongo_reachable e \<and>
    chat_input e = Some inp \<and> inp \<noteq> [] \<and> length inp \<le> 2000 \<longrightarrow>
      (\<exists>pre post. trace (app_1 e s coll) =
           pre @ [InsertOne (new_document (current_session_id e s) (utcnow e 0) ''user'' inp None),
                  ChatMessage ''user'' inp,
                  ChatCompletionCreate (build_messages SYSTEM_PROMPT_1
                     (initial_buffer e s coll @ [\<lparr>role = ''user'', content = inp\<rparr>]))] @ post \<and>
           requests pre = [] \<and> inserts pre = [] \<and> requests post = []) \<and>
      ((\<forall>c t. openai_create e (build_messages SYSTEM_PROMPT_1
                  (initial_buffer e s coll @ [\<lparr>role = ''user'', content = inp\<rparr>]))
               \<noteq> ChatCompletion c t) \<longrightarrow>
         collection (app_1 e s coll) =
           coll @ [new_document (current_session_id e s) (utcnow e 0) ''user'' inp None] \<and>
         inserts (trace (app_1 e s coll)) =
           [new_document (current_session_id e s) (utcnow e 0) ''user'' inp None] \<and>
         (\<exists>new. snd (app_1_reruns es (session (app_1 e s coll)) (collection (app_1 e s coll))) =
            coll @ [new_document (current_session_id e s) (utcnow e 0) ''user'' inp None] @ new))) \<and>
   doc_role (new_document (current_session_id e s) (utcnow e 0) ''user'' inp None) = ''user'' \<and>
   doc_content (new_document (current_session_id e s) (utcnow e 0) ''user'' inp None) = inp \<and>
   (\<exists>new. collection (app_1 e s coll) = coll @ new) \<and>
   (\<exists>new. snd (app_1_reruns es s coll) = coll @ new)"
proof (intro conjI impI; (elim conjE)?)
  show "doc_role (new_document (current_session_id e s) (utcnow e 0) ''user'' inp None) = ''user''"
    and "doc_content (new_document (current_session_id e s) (utcnow e 0) ''user'' inp None) = inp"
    by (simp_all add: new_document_def)
qed (rule app_1_insert_before_request app_1_provider_failure(7,8) app_1_failure_permanent
       app_1_appends app_1_reruns_appends; assumption)+

theorem user_document_inserted_before_request_witness:
  "secrets (demo_env (Some ''hello'') Timeout) ''OPENAI_API_KEY'' \<noteq> None \<and>
   secrets (demo_env (Some ''hello'') Timeout) ''MONGODB_URI'' \<noteq> None \<and>
   mongo_reachable (demo_env (Some ''hello'') Timeout) \<and>
   chat_input (demo_env (Some ''hello'') Timeout) = Some ''hello'' \<and>
   length ''hello'' \<le> 2000 \<and>
   collection (app_1 (demo_env (Some ''hello'') Timeout) (session_with long_history) long_collection) =
     long_collection @ [new_document ''session-a'' 1000 ''user'' ''hello'' None] \<and>
   inserts (trace (app_1 (demo_env (Some ''hello'') Timeout) (session_with long_history)
     long_collection)) = [new_document ''session-a'' 1000 ''user'' ''hello'' None] \<and>
   (\<exists>new. snd (app_1_reruns [demo_env (Some ''again'') (ChatCompletion ''ok'' 3)]
        (session (app_1 (demo_env (Some ''hello'') Timeout) (session_with long_history) long_collection))
        (collection (app_1 (demo_env (Some ''hello'') Timeout) (session_with long_history)
           long_collection))) =
      long_collection @ [new_document ''session-a'' 1000 ''user'' ''hello'' None] @ new) \<and>
   (\<exists>pre post. trace (app_1 (demo_env (Some ''hello'') Timeout) (session_with long_history)
        long_collection) =
      pre @ [InsertOne (new_document ''session-a'' 1000 ''user'' ''hello'' None),
             ChatMessage ''user'' ''hello'',
             ChatCompletionCreate (build_messages SYSTEM_PROMPT_1
               (long_history @ [\<lparr>role = ''user'', content = ''hello''\<rparr>]))] @ post \<and>
      requests pre = [] \<and> inserts pre = [] \<and> requests post = [])"
proof -
  let ?e = "demo_env (Some ''hello'') Timeout"
  let ?s = "session_with long_history"
  let ?es = "[demo_env (Some ''again'') (ChatCompletion ''ok'' 3)]"
  have h: "secrets ?e ''OPENAI_API_KEY'' \<noteq> None" "secrets ?e ''MONGODB_URI'' \<noteq> None"
    "mongo_reachable ?e" "chat_input ?e = Some ''hello''" "length ''hello'' \<le> 2000"
    by simp_all
  have hyp: "secrets ?e ''OPENAI_API_KEY'' \<noteq> None \<and> secrets ?e ''MONGODB_URI'' \<noteq> None \<and>
      mongo_reachable ?e \<and> chat_input ?e = Some ''hello'' \<and> ''hello'' \<noteq> [] \<and>
      length ''hello'' \<le> 2000"
    by simp
  have f: "\<forall>c t. openai_create ?e (build_messages SYSTEM_PROMPT_1
                  (initial_buffer ?e ?s long_collection @ [\<lparr>role = ''user'', content = ''hello''\<rparr>]))
               \<noteq> ChatCompletion c t"
    by simp
  note a = user_document_inserted_before_request [of ?e "''hello''" ?s long_collection ?es,
             THEN conjunct1, THEN mp, OF hyp]
  note b = a [THEN conjunct2, THEN mp, OF f]
  have r1: "collection (app_1 ?e ?s long_collection) =
      long_collection @ [new_document ''session-a'' 1000 ''user'' ''hello'' None]"
    using b [THEN conjunct1] by simp
  have r2: "inserts (trace (app_1 ?e ?s long_collection)) =
      [new_document ''session-a'' 1000 ''user'' ''hello'' None]"
    using b [THEN conjunct2, THEN conjunct1] by simp
  have r3: "\<exists>new. snd (app_1_reruns ?es (session (app_1 ?e ?s long_collection))
        (collection (app_1 ?e ?s long_collection))) =
      long_collection @ [new_document ''session-a'' 1000 ''user'' ''hello'' None] @ new"
    using b [THEN conjunct2, THEN conjunct2] by simp
  have r4: "\<exists>pre post. trace (app_1 ?e ?s long_collection) =
      pre @ [InsertOne (new_document ''session-a'' 1000 ''user'' ''hello'' None),
             ChatMessage ''user'' ''hello'',
             ChatCompletionCreate (build_messages SYSTEM_PROMPT_1
               (long_history @ [\<lparr>role = ''user'', content = ''hello''\<rparr>]))] @ post \<and>
      requests pre = [] \<and> inserts pre = [] \<and> requests post = []"
    using a [THEN conjunct1] by simp
  from h r1 r2 r3 r4 show ?thesis
    by (intro conjI)
qed



text \<open>
  C5. An execution of \<^verbatim>\<open>app_1.py\<close> that starts without a buffer and handles no input
  leaves as buffer the role and content of all documents stored for the session, sorted
  ascending by creation time: the retrieval is sorted, holds each stored document of the
  session as often as the collection does, and the buffer is as long as that history; it
  is not trimmed. With 25 stored documents the buffer has 25 entries (more than
  \<open>MAX_MESSAGES = 20\<close>); the next execution that completes a turn sends a request built
  from all 25 entries and the user's message, and leaves the last 20 entries of the 27, in
  their order.
\<close>

theorem rehydration_loads_full_history:
  "sorted (map created_at (find_sorted sid coll)) \<and>
   (\<forall>d. count_list (find_sorted sid coll) d =
        count_list (filter (\<lambda>d. doc_session_id d = sid) coll) d) \<and>
   load_messages sid coll =
     map (\<lambda>d. \<lparr>role = doc_role d, content = doc_content d\<rparr>) (find_sorted sid coll) \<and>
   length (load_messages sid coll) = length (filter (\<lambda>d. doc_session_id d = sid) coll) \<and>
   MAX_MESSAGES = 20 \<and>
   (secrets e ''OPENAI_API_KEY'' \<noteq> None \<and> secrets e ''MONGODB_URI'' \<noteq> None \<and> mongo_reachable e \<and>
    messages s = None \<and> \<not> truthy (chat_input e) \<longrightarrow>
      messages (session (app_1 e s coll)) = Some (load_messages (current_session_id e s) coll) \<and>
      buffer (session (app_1 e s coll)) = load_messages (current_session_id e s) coll \<and>
      collection (app_1 e s coll) = coll \<and>
      (length (filter (\<lambda>d. doc_session_id d = current_session_id e s) coll) = 25 \<longrightarrow>
         length (buffer (session (app_1 e s coll))) = 25 \<and>
         (secrets e' ''OPENAI_API_KEY'' \<noteq> None \<and> secrets e' ''MONGODB_URI'' \<noteq> None \<and>
          mongo_reachable e' \<and> chat_input e' = Some inp \<and> inp \<noteq> [] \<and> length inp \<le> 2000 \<and>
          openai_create e' (build_messages SYSTEM_PROMPT_1
              (load_messages (current_session_id e s) coll @ [\<lparr>role = ''user'', content = inp\<rparr>]))
            = ChatCompletion c t \<and>
          strip c \<noteq> [] \<longrightarrow>
            buffer (session (app_1 e' (session (app_1 e s coll)) (collection (app_1 e s coll)))) =
              drop 7 (load_messages (current_session_id e s) coll @
                [\<lparr>role = ''user'', content = inp\<rparr>, \<lparr>role = ''assistant'', content = strip c\<rparr>]) \<and>
            length (buffer (session (app_1 e' (session (app_1 e s coll))
                      (collection (app_1 e s coll))))) = 20 \<and>
            requests (trace (app_1 e' (session (app_1 e s coll)) (collection (app_1 e s coll)))) =
              [build_messages SYSTEM_PROMPT_1
                 (load_messages (current_session_id e s) coll @ [\<lparr>role = ''user'', content = inp\<rparr>])])))"
proof (intro conjI impI allI; (elim conjE)?)
  show "sorted (map created_at (find_sorted sid coll))"
    by (rule find_sorted_sorted)
  show "load_messages sid coll =
     map (\<lambda>d. \<lparr>role = doc_role d, content = doc_content d\<rparr>) (find_sorted sid coll)"
    by (simp add: load_messages_def)
  show "MAX_MESSAGES = 20"
    by (simp add: MAX_MESSAGES_def)
  show "length (buffer (session (app_1 e s coll))) = 25"
    if "secrets e ''OPENAI_API_KEY'' \<noteq> None" "secrets e ''MONGODB_URI'' \<noteq> None"
      "mongo_reachable e" "messages s = None" "\<not> truthy (chat_input e)"
      "length (filter (\<lambda>d. doc_session_id d = current_session_id e s) coll) = 25"
    using that by (simp add: app_1_rehydrates(2) length_load_messages)
qed (rule find_sorted_count length_load_messages app_1_rehydrates(1,2,3)
       app_1_turn_after_rehydration; assumption)+

theorem rehydration_loads_full_history_witness:
  "secrets (demo_env None Timeout) ''OPENAI_API_KEY'' \<noteq> None \<and>
   secrets (demo_env None Timeout) ''MONGODB_URI'' \<noteq> None \<and>
   mongo_reachable (demo_env None Timeout) \<and>
   messages returning_session = None \<and>
   \<not> truthy (chat_input (demo_env None Timeout)) \<and>
   length (filter (\<lambda>d. doc_session_id d = ''session-a'') long_collection) = 25 \<and>
   chat_input (demo_env (Some ''hello'') (ChatCompletion ''ok'' 3)) = Some ''hello'' \<and>
   length ''hello'' \<le> 2000 \<and>
   strip ''ok'' \<noteq> [] \<and>
   buffer (session (app_1 (demo_env None Timeout) returning_session long_collection)) = long_history \<and>
   length (buffer (session (app_1 (demo_env None Timeout) returning_session long_collection))) = 25 \<and>
   buffer (session (app_1 (demo_env (Some ''hello'') (ChatCompletion ''ok'' 3))
     (session (app_1 (demo_env None Timeout) returning_session long_collection))
     (collection (app_1 (demo_env None Timeout) returning_session long_collection)))) =
     drop 7 long_history @
       [\<lparr>role = ''user'', content = ''hello''\<rparr>, \<lparr>role = ''assistant'', content = ''ok''\<rparr>] \<and>
   length (buffer (session (app_1 (demo_env (Some ''hello'') (ChatCompletion ''ok'' 3))
     (session (app_1 (demo_env None Timeout) returning_session long_collection))
     (collection (app_1 (demo_env None Timeout) returning_session long_collection))))) = 20"
proof -
  let ?e = "demo_env None Timeout"
  let ?e2 = "demo_env (Some ''hello'') (ChatCompletion ''ok'' 3)"
  let ?s = returning_session
  have h: "secrets ?e ''OPENAI_API_KEY'' \<noteq> None" "secrets ?e ''MONGODB_URI'' \<noteq> None"
    "mongo_reachable ?e" "messages ?s = None" "\<not> truthy (chat_input ?e)"
    by simp_all
  have n: "length (filter (\<lambda>d. doc_session_id d = ''session-a'') long_collection) = 25"
    by (simp add: long_collection_session)
  have h2: "chat_input ?e2 = Some ''hello''" "length ''hello'' \<le> 2000" "strip ''ok'' \<noteq> []"
    by simp_all
  have hyp: "secrets ?e ''OPENAI_API_KEY'' \<noteq> None \<and> secrets ?e ''MONGODB_URI'' \<noteq> None \<and>
      mongo_reachable ?e \<and> messages ?s = None \<and> \<not> truthy (chat_input ?e)"
    by simp
  have n': "length (filter (\<lambda>d. doc_session_id d = current_session_id ?e ?s) long_collection) = 25"
    using n by simp
  have hyp2: "secrets ?e2 ''OPENAI_API_KEY'' \<noteq> None \<and> secrets ?e2 ''MONGODB_URI'' \<noteq> None \<and>
      mongo_reachable ?e2 \<and> chat_input ?e2 = Some ''hello'' \<and> ''hello'' \<noteq> [] \<and>
      length ''hello'' \<le> 2000 \<and>
      openai_create ?e2 (build_messages SYSTEM_PROMPT_1
          (load_messages (current_session_id ?e ?s) long_collection @
             [\<lparr>role = ''user'', content = ''hello''\<rparr>])) = ChatCompletion ''ok'' 3 \<and>
      strip ''ok'' \<noteq> []"
    by simp
  note w = rehydration_loads_full_history
      [where sid = "''session-a''" and coll = long_collection and e = ?e and s = ?s and e' = ?e2
         and inp = "''hello''" and c = "''ok''" and t = 3]
  note a = w [THEN conjunct2, THEN conjunct2, THEN conjunct2, THEN conjunct2, THEN conjunct2,
              THEN mp, OF hyp]
  note b = a [THEN conjunct2, THEN conjunct2, THEN conjunct2, THEN mp, OF n']
  note d = b [THEN conjunct2, THEN mp, OF hyp2]
  have r1: "buffer (session (app_1 ?e ?s long_collection)) = long_history"
    using a [THEN conjunct2, THEN conjunct1] by (simp add: load_messages_long_collection)
  have r2: "length (buffer (session (app_1 ?e ?s long_collection))) = 25"
    using b [THEN conjunct1] .
  have r3: "buffer (session (app_1 ?e2 (session (app_1 ?e ?s long_collection))
      (collection (app_1 ?e ?s long_collection)))) =
     drop 7 long_history @
       [\<lparr>role = ''user'', content = ''hello''\<rparr>, \<lparr>role = ''assistant'', content = ''ok''\<rparr>]"
    using d [THEN conjunct1] by (simp add: load_messages_long_collection)
  have r4: "length (buffer (session (app_1 ?e2 (session (app_1 ?e ?s long_collection))
      (collection (app_1 ?e ?s long_collection))))) = 20"
    using d [THEN conjunct2, THEN conjunct1] .
  from h n h2 r1 r2 r3 r4 show ?thesis
    by (intro conjI)
qed







end
